theory Spec2Isabelle
  imports Complex_Main "HOL-Library.Multiset" "HOL-Library.Sublist"
begin

section \<open>File classifier: \<open>shouldIncludeFile\<close>\<close>

text \<open>
  The exclusion rules of \<open>shouldIncludeFile\<close> are JavaScript regular expressions built
  from literal text, groups of alternatives, concatenation and the anchors \<open>^\<close> and
  \<open>$\<close> (no flags, so \<open>$\<close> is the end of the input). The datatype below is that
  fragment; \<open>rx_run\<close> matches an expression at one position and returns every position
  at which the match can end, and \<open>rx_test\<close> is \<open>RegExp.prototype.test\<close>: a match
  may start at any offset of the input.
\<close>

datatype regex =
    Lit string
  | Alt "regex list"
  | Seq "regex list"
  | Bol
  | Eol

text \<open>A position is the text still to be read, with a flag telling whether nothing
  has been read yet.\<close>

type_synonym rx_pos = "bool \<times> string"

fun startsWith :: "string \<Rightarrow> string \<Rightarrow> bool" where
  "startsWith [] s = True"
| "startsWith (c # cs) [] = False"
| "startsWith (c # cs) (d # ds) = (c = d \<and> startsWith cs ds)"

fun rx_run :: "regex \<Rightarrow> rx_pos \<Rightarrow> rx_pos list" where
  "rx_run (Lit l) (b, s) =
     (if startsWith l s then [(b \<and> l = [], drop (length l) s)] else [])"
| "rx_run (Alt rs) p = concat (map (\<lambda>r. rx_run r p) rs)"
| "rx_run (Seq []) p = [p]"
| "rx_run (Seq (r # rs)) p = concat (map (rx_run (Seq rs)) (rx_run r p))"
| "rx_run Bol (b, s) = (if b then [(b, s)] else [])"
| "rx_run Eol (b, s) = (if s = [] then [(b, s)] else [])"

fun rx_from :: "regex \<Rightarrow> bool \<Rightarrow> string \<Rightarrow> bool" where
  "rx_from r b [] = (rx_run r (b, []) \<noteq> [])"
| "rx_from r b (c # cs) = (rx_run r (b, c # cs) \<noteq> [] \<or> rx_from r False cs)"

definition rx_test :: "regex \<Rightarrow> string \<Rightarrow> bool" where
  "rx_test r s = rx_from r True s"

text \<open>The rule list of the source, in its order and with its comments.\<close>

definition excludePatterns :: "regex list" where
  "excludePatterns =
   [ \<comment> \<open>Lock files\<close>
     Seq [Lit ''package-lock.json'', Eol],
     Seq [Lit ''yarn.lock'', Eol],
     Seq [Lit ''pnpm-lock.yaml'', Eol],
     Seq [Lit ''composer.lock'', Eol],
     Seq [Lit ''Gemfile.lock'', Eol],
     Seq [Lit ''poetry.lock'', Eol],
     Seq [Lit ''Pipfile.lock'', Eol],
     \<comment> \<open>Minified files\<close>
     Seq [Lit ''.min.'', Alt [Lit ''js'', Lit ''css''], Eol],
     Seq [Lit ''.bundle.'', Alt [Lit ''js'', Lit ''css''], Eol],
     \<comment> \<open>Source maps\<close>
     Seq [Lit ''.map'', Eol],
     \<comment> \<open>Build/dist directories\<close>
     Seq [Bol, Alt [Lit ''dist'', Lit ''build'', Lit ''out'', Lit ''target'', Lit ''bin'',
                    Lit ''obj''], Lit ''/''],
     Seq [Lit ''node_modules/''],
     Seq [Lit ''vendor/''],
     Seq [Lit ''__pycache__/''],
     Seq [Lit ''.pytest_cache/''],
     \<comment> \<open>Generated files\<close>
     Seq [Lit ''.generated.''],
     Seq [Lit ''.auto.''],
     Seq [Bol, Lit ''generated/''],
     \<comment> \<open>Documentation builds\<close>
     Seq [Bol, Lit ''docs/_build/''],
     Seq [Bol, Lit ''site/''],
     \<comment> \<open>IDE files\<close>
     Seq [Lit ''.vscode/''],
     Seq [Lit ''.idea/''],
     \<comment> \<open>Large data files that shouldn't count as code\<close>
     Seq [Lit ''.'', Alt [Lit ''jpg'', Lit ''jpeg'', Lit ''png'', Lit ''gif'', Lit ''svg'',
                         Lit ''ico'', Lit ''pdf'', Lit ''zip'', Lit ''tar'', Lit ''gz'',
                         Lit ''rar'', Lit ''7z'', Lit ''exe'', Lit ''dmg''], Eol],
     Seq [Lit ''.'', Alt [Lit ''mp4'', Lit ''avi'', Lit ''mov'', Lit ''wmv'', Lit ''mp3'',
                         Lit ''wav'', Lit ''ogg''], Eol],
     \<comment> \<open>Database files\<close>
     Seq [Lit ''.'', Alt [Lit ''db'', Lit ''sqlite'', Lit ''sqlite3''], Eol],
     \<comment> \<open>Log files\<close>
     Seq [Lit ''.'', Alt [Lit ''log'', Lit ''logs''], Eol],
     Seq [Bol, Lit ''logs/'']
   ]"

text \<open>\<open>return !excludePatterns.some(pattern => pattern.test(filename))\<close>\<close>

definition shouldIncludeFile :: "string \<Rightarrow> bool" where
  "shouldIncludeFile filename = (\<not> list_ex (\<lambda>pattern. rx_test pattern filename) excludePatterns)"

section \<open>The remote API and the calculator's state\<close>

text \<open>
  The program talks to the hosting API through three calls of the client library and reads
  the wall clock. None of them is code of this repository, so each is a field of the record
  \<open>world\<close>, universally quantified in the theorems. Every request is preceded by
  \<open>rateLimitCheck\<close>, which increments \<open>requestCount\<close>; the value of the counter
  therefore numbers the requests of a run, and it is the first argument of each field, so
  that the same request may be answered differently at different moments. The query
  parameters that are the same for every request of a run (author, since, until, page size,
  sort order) are left to the oracle.

  An exception thrown by the client library is a value of \<open>apiError\<close>: its HTTP status,
  when it has one, and its message.
\<close>

datatype apiError = ApiError (status: "nat option") (message: string)

record repository =
  repo_name :: string
  full_name :: string
  owner_login :: "string option"   \<comment> \<open>\<open>repo.owner.login\<close>; \<open>None\<close> when \<open>repo.owner\<close> is null\<close>
  repo_size :: int

record commit =
  sha :: string

record fileChange =
  filename :: string
  file_additions :: "int option"   \<comment> \<open>\<open>None\<close>: the property is missing\<close>
  file_deletions :: "int option"

record statsObject =
  stats_additions :: "int option"
  stats_deletions :: "int option"
  stats_total :: "int option"

text \<open>The body of a get-commit response: \<open>data.stats\<close> and \<open>data.files\<close> may be missing,
  and an entry of the file array may be null.\<close>

record commitData =
  data_stats :: "statsObject option"
  data_files :: "fileChange option list option"

record world =
  listForAuthenticatedUser :: "nat \<Rightarrow> nat \<Rightarrow> apiError + repository list"
    \<comment> \<open>request number, page\<close>
  listCommits :: "nat \<Rightarrow> string \<Rightarrow> string \<Rightarrow> nat \<Rightarrow> apiError + commit list"
    \<comment> \<open>request number, owner, repo, page\<close>
  getCommit :: "nat \<Rightarrow> string \<Rightarrow> string \<Rightarrow> string \<Rightarrow> apiError + commitData"
    \<comment> \<open>request number, owner, repo, ref\<close>
  dateNow :: "nat \<Rightarrow> int \<times> int"
    \<comment> \<open>the two readings of \<open>Date.now()\<close> (milliseconds) that the throttle call numbered
        by the argument makes: for the rate, and for the wait time\<close>
  constructedAt :: int
    \<comment> \<open>\<open>Date.now()\<close> in the constructor\<close>
  processedAtStamp :: string
    \<comment> \<open>\<open>new Date().toISOString()\<close> when the result object is created\<close>
  toLocaleString :: "int \<Rightarrow> string"
    \<comment> \<open>\<open>Number.prototype.toLocaleString\<close>, which depends on the host's locale\<close>
  validYear :: "int \<Rightarrow> bool"
    \<comment> \<open>whether the engine's \<open>Date\<close> parses the two timestamps built from the year;
        \<open>toISOString\<close> throws a \<open>RangeError\<close> on an invalid date\<close>

text \<open>
  Every \<open>await new Promise(resolve => setTimeout(resolve, d))\<close> of the source is recorded,
  in order, in the field \<open>timers\<close> of the state: the program's suspensions are its only
  effect on time. Durations are milliseconds.
\<close>

datatype timer =
    RateLimitWait rat   \<comment> \<open>line 38\<close>
  | BaseDelay nat       \<comment> \<open>line 44\<close>
  | RetryBackoff nat    \<comment> \<open>line 298\<close>

record calculator =
  username :: string
  year :: int
  requestCount :: nat
  maxRequestsPerHour :: nat
  startTime :: int
  timers :: "timer list"

definition newCalculator :: "world \<Rightarrow> string \<Rightarrow> int \<Rightarrow> calculator" where
  "newCalculator w user yr =
     \<lparr> username = user, year = yr, requestCount = 0, maxRequestsPerHour = 4800,
       startTime = constructedAt w, timers = [] \<rparr>"

section \<open>Throttle: \<open>rateLimitCheck\<close>\<close>

text \<open>
  JavaScript numbers are IEEE doubles; the model computes with exact rationals, so the
  rounding of the two divisions is not modelled. Division by zero is written out: the
  counter is at least 1 after the increment, so \<open>requestCount / 0\<close> is \<open>Infinity\<close>, which
  exceeds every ceiling. The console message and \<open>lastWaitLog\<close>, which only rations that
  message, are left out.
\<close>

definition elapsedHours :: "calculator \<Rightarrow> int \<Rightarrow> rat" where
  "elapsedHours c now = of_int (now - startTime c) / (1000 * 60 * 60)"

definition rateExceeded :: "calculator \<Rightarrow> int \<Rightarrow> bool" where
  "rateExceeded c now =
     (if elapsedHours c now = 0 then True
      else of_nat (requestCount c) / elapsedHours c now > of_nat (maxRequestsPerHour c))"

definition waitTime :: "calculator \<Rightarrow> int \<Rightarrow> rat" where
  "waitTime c now =
     (of_nat (requestCount c) / of_nat (maxRequestsPerHour c)) * 60 * 60 * 1000
       - of_int (now - startTime c)"

definition sleep :: "timer \<Rightarrow> calculator \<Rightarrow> calculator" where
  "sleep t c = c\<lparr>timers := timers c @ [t]\<rparr>"

definition rateLimitCheck :: "world \<Rightarrow> calculator \<Rightarrow> calculator" where
  "rateLimitCheck w c0 =
     (let c = c0\<lparr>requestCount := requestCount c0 + 1\<rparr>;
          (now1, now2) = dateNow w (requestCount c);
          c = (if rateExceeded c now1
               then (if waitTime c now2 > 0 then sleep (RateLimitWait (waitTime c now2)) c else c)
               else c);
          baseDelay = (if requestCount c > 100 then 150 else 100)
      in sleep (BaseDelay baseDelay) c)"

section \<open>Repository resolver\<close>

text \<open>\<open>getAllRepositories\<close>: the \<open>while (true)\<close> loop, with its \<open>try\<close> inside the loop
  body, so that a failing page ends the loop and keeps what was collected.\<close>

function getAllRepositories_loop ::
  "world \<Rightarrow> calculator \<Rightarrow> repository list \<Rightarrow> nat \<Rightarrow> repository list \<times> calculator" where
  "getAllRepositories_loop w c0 repos page =
     (let c = rateLimitCheck w c0 in
      case listForAuthenticatedUser w (requestCount c) page of
        Inl error \<Rightarrow> (repos, c)
      | Inr data \<Rightarrow>
          if data = [] then (repos, c)
          else if page + 1 > 1000 then (repos @ data, c)
          else getAllRepositories_loop w c (repos @ data) (page + 1))"
  by pat_completeness auto
termination
  by (relation "measure (\<lambda>(w, c, repos, page). 1001 - page)") auto

definition getAllRepositories :: "world \<Rightarrow> calculator \<Rightarrow> repository list \<times> calculator" where
  "getAllRepositories w c = getAllRepositories_loop w c [] 1"

definition getRepositoryByName ::
  "world \<Rightarrow> calculator \<Rightarrow> string \<Rightarrow> repository option \<times> calculator" where
  "getRepositoryByName w c repoName =
     (let (repos, c') = getAllRepositories w c
      in (find (\<lambda>repo. repo_name repo = repoName \<or> full_name repo = repoName
                         \<or> full_name repo = username c @ ''/'' @ repoName) repos, c'))"

section \<open>Commit fetcher: \<open>getCommitsForRepo\<close>\<close>

definition maxCommitsPerRepo :: nat where
  "maxCommitsPerRepo = 5000"

text \<open>The \<open>while (totalFetched < maxCommitsPerRepo)\<close> loop. A request that throws leaves
  the loop with \<open>Inl\<close>: the \<open>try\<close> of this function is around the whole body.\<close>

function getCommitsForRepo_loop ::
  "world \<Rightarrow> calculator \<Rightarrow> string \<Rightarrow> string \<Rightarrow> commit list \<Rightarrow> nat \<Rightarrow> nat
     \<Rightarrow> (apiError + commit list) \<times> calculator" where
  "getCommitsForRepo_loop w c0 owner repo commits page totalFetched =
     (if totalFetched < maxCommitsPerRepo then
        (let c = rateLimitCheck w c0 in
         case listCommits w (requestCount c) owner repo page of
           Inl error \<Rightarrow> (Inl error, c)
         | Inr data \<Rightarrow>
             if data = [] then (Inr commits, c)
             else getCommitsForRepo_loop w c owner repo (commits @ data) (page + 1)
                    (totalFetched + length data))
      else (Inr commits, c0))"
  by pat_completeness auto
termination
  by (relation "measure (\<lambda>(w, c, owner, repo, commits, page, totalFetched).
                    maxCommitsPerRepo - totalFetched)") (auto simp: neq_Nil_conv)

text \<open>\<open>try { ...; return commits; } catch (error) { ...; return []; }\<close>\<close>

definition getCommitsForRepo ::
  "world \<Rightarrow> calculator \<Rightarrow> string \<Rightarrow> string \<Rightarrow> commit list \<times> calculator" where
  "getCommitsForRepo w c owner repo =
     (case getCommitsForRepo_loop w c owner repo [] 1 0 of
        (Inr commits, c') \<Rightarrow> (commits, c')
      | (Inl error, c') \<Rightarrow> ([], c'))"

section \<open>Commit stat fetcher: \<open>getCommitStatsWithRetry\<close>\<close>

record commitStats =
  cs_additions :: int
  cs_deletions :: int
  cs_total :: int
  cs_files :: "fileChange option list"
  cs_truncated :: bool

text \<open>\<open>x || 0\<close> on a number that may be missing, and \<open>x > n\<close>, which is false when
  \<open>x\<close> is \<open>undefined\<close>.\<close>

definition orZero :: "int option \<Rightarrow> int" where
  "orZero x = (case x of None \<Rightarrow> 0 | Some n \<Rightarrow> n)"

definition exceedsBound :: "int option \<Rightarrow> int \<Rightarrow> bool" where
  "exceedsBound x n = (case x of None \<Rightarrow> False | Some v \<Rightarrow> v > n)"

text \<open>Lines 264 to 284: what is returned for a response that arrived.\<close>

definition statsOfResponse :: "commitData \<Rightarrow> commitStats" where
  "statsOfResponse d =
     (let stats = (case data_stats d of
                     None \<Rightarrow> \<lparr> stats_additions = Some 0, stats_deletions = Some 0,
                               stats_total = Some 0 \<rparr>
                   | Some s \<Rightarrow> s);
          files = (case data_files d of None \<Rightarrow> [] | Some fs \<Rightarrow> fs)
      in \<lparr> cs_additions = orZero (stats_additions stats),
           cs_deletions = orZero (stats_deletions stats),
           cs_total = orZero (stats_total stats),
           cs_files = files,
           cs_truncated = (length files \<ge> 300 \<or> exceedsBound (stats_total stats) 50000) \<rparr>)"

definition zeroStats :: commitStats where
  "zeroStats = \<lparr> cs_additions = 0, cs_deletions = 0, cs_total = 0, cs_files = [],
                 cs_truncated = False \<rparr>"

text \<open>
  The \<open>for (let attempt = 1; attempt <= maxRetries; attempt++)\<close> loop, from a given
  attempt on. Falling off the end of the loop returns \<open>undefined\<close>, here \<open>None\<close>. Every
  statement of the loop body is inside the \<open>try\<close>, and the handler only reads
  \<open>error.status\<close> and \<open>error.message\<close>, takes a substring of \<open>sha\<close>, returns, or sleeps:
  for an exception object and a string \<open>sha\<close> nothing is thrown from it, so the function
  has no error result.
\<close>

function getCommitStatsWithRetry_from ::
  "world \<Rightarrow> calculator \<Rightarrow> string \<Rightarrow> string \<Rightarrow> string \<Rightarrow> nat \<Rightarrow> nat
     \<Rightarrow> commitStats option \<times> calculator" where
  "getCommitStatsWithRetry_from w c0 owner repo ref maxRetries attempt =
     (if attempt \<le> maxRetries then
        (let c = rateLimitCheck w c0 in
         case getCommit w (requestCount c) owner repo ref of
           Inr d \<Rightarrow> (Some (statsOfResponse d), c)
         | Inl error \<Rightarrow>
             if status error = Some 409 \<or> status error = Some 404 then (Some zeroStats, c)
             else if attempt = maxRetries then (Some zeroStats, c)
             else getCommitStatsWithRetry_from w (sleep (RetryBackoff (2000 * attempt)) c)
                    owner repo ref maxRetries (attempt + 1))
      else (None, c0))"
  by pat_completeness auto
termination
  by (relation "measure (\<lambda>(w, c, owner, repo, ref, maxRetries, attempt).
                    maxRetries + 1 - attempt)") auto

definition getCommitStatsWithRetry ::
  "world \<Rightarrow> calculator \<Rightarrow> string \<Rightarrow> string \<Rightarrow> string \<Rightarrow> nat
     \<Rightarrow> commitStats option \<times> calculator" where
  "getCommitStatsWithRetry w c owner repo ref maxRetries =
     getCommitStatsWithRetry_from w c owner repo ref maxRetries 1"

section \<open>Repository processor: \<open>processRepository\<close>\<close>

text \<open>
  The exceptions that the body of \<open>processRepository\<close> can raise are \<open>TypeError\<close>s of
  property reads on \<open>null\<close> or \<open>undefined\<close>; only their message reaches the result.
  The wording of such a message belongs to the JavaScript engine.
\<close>

definition nullOwnerMessage :: string where
  "nullOwnerMessage = ''Cannot read properties of null (reading login)''"

definition nullFileMessage :: string where
  "nullFileMessage = ''Cannot read properties of null (reading filename)''"

definition undefinedStatsMessage :: string where
  "undefinedStatsMessage = ''Cannot read properties of undefined (reading truncated)''"

text \<open>The inner loop \<open>for (const file of stats.files)\<close>.\<close>

fun sumIncludedFiles :: "fileChange option list \<Rightarrow> int \<Rightarrow> int \<Rightarrow> string + (int \<times> int)" where
  "sumIncludedFiles [] filteredAdditions filteredDeletions =
     Inr (filteredAdditions, filteredDeletions)"
| "sumIncludedFiles (None # files) filteredAdditions filteredDeletions = Inl nullFileMessage"
| "sumIncludedFiles (Some file # files) filteredAdditions filteredDeletions =
     (if shouldIncludeFile (filename file)
      then sumIncludedFiles files (filteredAdditions + orZero (file_additions file))
             (filteredDeletions + orZero (file_deletions file))
      else sumIncludedFiles files filteredAdditions filteredDeletions)"

text \<open>Lines 150 to 169: the filtered additions and deletions of one commit.\<close>

definition filteredStats :: "commitStats \<Rightarrow> string + (int \<times> int)" where
  "filteredStats stats =
     (if length (cs_files stats) > 0 then sumIncludedFiles (cs_files stats) 0 0
      else if cs_total stats > 0 then Inr (cs_additions stats, cs_deletions stats)
      else Inr (0, 0))"

record repoTotals =
  repoAdditions :: int
  repoDeletions :: int
  repoCommits :: nat
  truncatedCommits :: nat

text \<open>The loop \<open>for (const commit of commits)\<close>; \<open>Inl\<close> is a thrown exception's message.\<close>

fun processCommits ::
  "world \<Rightarrow> calculator \<Rightarrow> string \<Rightarrow> string \<Rightarrow> commit list \<Rightarrow> repoTotals
     \<Rightarrow> (string + repoTotals) \<times> calculator" where
  "processCommits w c owner repo [] acc = (Inr acc, c)"
| "processCommits w c owner repo (commit # rest) acc =
     (case getCommitStatsWithRetry w c owner repo (sha commit) 3 of
        (None, c') \<Rightarrow> (Inl undefinedStatsMessage, c')
      | (Some stats, c') \<Rightarrow>
          (let acc = (if cs_truncated stats
                      then acc\<lparr>truncatedCommits := truncatedCommits acc + 1\<rparr> else acc)
           in case filteredStats stats of
                Inl msg \<Rightarrow> (Inl msg, c')
              | Inr (filteredAdditions, filteredDeletions) \<Rightarrow>
                  processCommits w c' owner repo rest
                    (acc\<lparr> repoAdditions := repoAdditions acc + filteredAdditions,
                          repoDeletions := repoDeletions acc + filteredDeletions,
                          repoCommits := repoCommits acc + 1 \<rparr>)))"

record repoSummary =
  sum_additions :: int
  sum_deletions :: int
  sum_commits :: nat
  sum_netLines :: int
  sum_truncatedCommits :: "nat option"   \<comment> \<open>absent from the empty and the failure result\<close>

record processResult =
  success :: bool
  error :: "string option"
  stats :: repoSummary

definition emptySummary :: repoSummary where
  "emptySummary = \<lparr> sum_additions = 0, sum_deletions = 0, sum_commits = 0, sum_netLines = 0,
                    sum_truncatedCommits = None \<rparr>"

text \<open>The \<open>try\<close> block of \<open>processRepository\<close>: \<open>Inl\<close> is the message of the exception
  that leaves it.\<close>

definition processRepository_try ::
  "world \<Rightarrow> calculator \<Rightarrow> repository \<Rightarrow> (string + processResult) \<times> calculator" where
  "processRepository_try w c repo =
     (case owner_login repo of
        None \<Rightarrow> (Inl nullOwnerMessage, c)
      | Some login \<Rightarrow>
          (let (commits, c1) = getCommitsForRepo w c login (repo_name repo) in
           if length commits = 0
           then (Inr \<lparr> success = True, error = None, stats = emptySummary \<rparr>, c1)
           else
             case processCommits w c1 login (repo_name repo) commits
                    \<lparr> repoAdditions = 0, repoDeletions = 0, repoCommits = 0,
                      truncatedCommits = 0 \<rparr> of
               (Inl msg, c2) \<Rightarrow> (Inl msg, c2)
             | (Inr acc, c2) \<Rightarrow>
                 (Inr \<lparr> success = True, error = None,
                        stats = \<lparr> sum_additions = repoAdditions acc,
                                  sum_deletions = repoDeletions acc,
                                  sum_commits = repoCommits acc,
                                  sum_netLines = repoAdditions acc - repoDeletions acc,
                                  sum_truncatedCommits = Some (truncatedCommits acc) \<rparr> \<rparr>,
                  c2)))"

text \<open>The \<open>catch\<close> block turns every exception into a result with \<open>success: false\<close>.\<close>

definition processRepository ::
  "world \<Rightarrow> calculator \<Rightarrow> repository \<Rightarrow> processResult \<times> calculator" where
  "processRepository w c repo =
     (case processRepository_try w c repo of
        (Inr result, c') \<Rightarrow> (result, c')
      | (Inl msg, c') \<Rightarrow> (\<lparr> success = False, error = Some msg, stats = emptySummary \<rparr>, c'))"

section \<open>Run orchestrator: \<open>calculateLOCForYear\<close>\<close>

record repoStat =
  rs_name :: string
  rs_additions :: int
  rs_deletions :: int
  rs_netLines :: int
  rs_commits :: nat
  rs_sizeKB :: int
  rs_truncatedCommits :: nat

record fileTypeStat =
  ft_additions :: int

record runtimeStatsRec =
  totalApiCalls :: nat
  rt_truncatedCommits :: nat
  skippedCommits :: nat

record processingStatusRec =
  successful :: nat
  failed :: nat
  failedRepos :: "string list"

datatype mode = AllMode | SingleMode   \<comment> \<open>the strings \<open>'all'\<close> and \<open>'single'\<close>\<close>

text \<open>The result object. \<open>fileTypeStats\<close> is a JavaScript object used as a dictionary and
  read with \<open>Object.entries\<close>: an association list in insertion order.\<close>

record runResult =
  totalAdditions :: int
  totalDeletions :: int
  netLines :: int
  totalCommits :: nat
  repoStats :: "repoStat list"
  fileTypeStats :: "(string \<times> fileTypeStat) list"
  warnings :: "string list"
  processedAt :: string
  runtimeStats :: runtimeStatsRec
  processingStatus :: processingStatusRec
  analysisMode :: mode

definition initialResults :: "world \<Rightarrow> mode \<Rightarrow> runResult" where
  "initialResults w m =
     \<lparr> totalAdditions = 0, totalDeletions = 0, netLines = 0, totalCommits = 0,
       repoStats = [], fileTypeStats = [], warnings = [],
       processedAt = processedAtStamp w,
       runtimeStats = \<lparr> totalApiCalls = 0, rt_truncatedCommits = 0, skippedCommits = 0 \<rparr>,
       processingStatus = \<lparr> successful = 0, failed = 0, failedRepos = [] \<rparr>,
       analysisMode = m \<rparr>"

text \<open>Lines 414 to 434: what one repository's result does to the result object.\<close>

definition recordResult :: "repository \<Rightarrow> processResult \<Rightarrow> runResult \<Rightarrow> runResult" where
  "recordResult repo result results =
     (if success result then
        results\<lparr>
          processingStatus := (processingStatus results)
            \<lparr>successful := successful (processingStatus results) + 1\<rparr>,
          totalAdditions := totalAdditions results + sum_additions (stats result),
          totalDeletions := totalDeletions results + sum_deletions (stats result),
          totalCommits := totalCommits results + sum_commits (stats result),
          runtimeStats := (runtimeStats results)
            \<lparr>rt_truncatedCommits := rt_truncatedCommits (runtimeStats results)
               + (case sum_truncatedCommits (stats result) of None \<Rightarrow> 0 | Some n \<Rightarrow> n)\<rparr>,
          repoStats := repoStats results @
            [\<lparr> rs_name = full_name repo,
               rs_additions = sum_additions (stats result),
               rs_deletions = sum_deletions (stats result),
               rs_netLines = sum_netLines (stats result),
               rs_commits = sum_commits (stats result),
               rs_sizeKB = repo_size repo,
               rs_truncatedCommits =
                 (case sum_truncatedCommits (stats result) of None \<Rightarrow> 0 | Some n \<Rightarrow> n) \<rparr>]
        \<rparr>
      else
        results\<lparr>
          processingStatus := (processingStatus results)
            \<lparr>failed := failed (processingStatus results) + 1,
             failedRepos := failedRepos (processingStatus results) @ [full_name repo]\<rparr>
        \<rparr>)"

text \<open>The loop \<open>for (let i = 0; i < repos.length; i++)\<close>.\<close>

fun processAll ::
  "world \<Rightarrow> calculator \<Rightarrow> runResult \<Rightarrow> repository list \<Rightarrow> runResult \<times> calculator" where
  "processAll w c results [] = (results, c)"
| "processAll w c results (repo # rest) =
     (let (result, c') = processRepository w c repo
      in processAll w c' (recordResult repo result results) rest)"

definition apostrophe :: string where
  "apostrophe = [CHR 0x27]"

definition notFoundMessage :: "string \<Rightarrow> string" where
  "notFoundMessage targetRepo = ''Repository '' @ apostrophe @ targetRepo @ apostrophe @ '' not found''"

text \<open>Lines 365 to 381: the repositories that the run is about. A target that is
  \<open>null\<close> or the empty string selects all of them.\<close>

definition selectRepositories ::
  "world \<Rightarrow> calculator \<Rightarrow> string option
     \<Rightarrow> (string + mode \<times> repository list) \<times> calculator" where
  "selectRepositories w c targetRepo =
     (case targetRepo of
        Some t \<Rightarrow>
          if t \<noteq> [] then
            (case getRepositoryByName w c t of
               (None, c') \<Rightarrow> (Inl (notFoundMessage t), c')
             | (Some repo, c') \<Rightarrow> (Inr (SingleMode, [repo]), c'))
          else (let (repos, c') = getAllRepositories w c in (Inr (AllMode, repos), c'))
      | None \<Rightarrow> (let (repos, c') = getAllRepositories w c in (Inr (AllMode, repos), c')))"

definition invalidTimeMessage :: string where
  "invalidTimeMessage = ''Invalid time value''"

definition calculateLOCForYear ::
  "world \<Rightarrow> calculator \<Rightarrow> string option \<Rightarrow> (string + runResult) \<times> calculator" where
  "calculateLOCForYear w c targetRepo =
     (if \<not> validYear w (year c) then (Inl invalidTimeMessage, c)
      else
        case selectRepositories w c targetRepo of
          (Inl msg, c') \<Rightarrow> (Inl msg, c')
        | (Inr (m, repos), c') \<Rightarrow>
            (let (results, c'') = processAll w c' (initialResults w m) repos;
                 results = results\<lparr>netLines := totalAdditions results - totalDeletions results\<rparr>;
                 results = results\<lparr>runtimeStats :=
                             (runtimeStats results)\<lparr>totalApiCalls := requestCount c''\<rparr>\<rparr>
             in (Inr results, c'')))"

section \<open>Reports\<close>

text \<open>
  \<open>Array.prototype.sort\<close> sorts the array it is called on, in place and stably, and returns
  that same array. With the comparator \<open>(a, b) => b.additions - a.additions\<close> the order is
  descending in \<open>additions\<close>; \<open>sort_key\<close> is a stable insertion sort. Since the array is
  the one the result object holds, a function that calls \<open>results.repoStats.sort\<close> returns
  the result object it leaves behind.
\<close>

definition sortByAdditions :: "repoStat list \<Rightarrow> repoStat list" where
  "sortByAdditions xs = sort_key (\<lambda>repo. - rs_additions repo) xs"

definition sortEntriesByAdditions ::
  "(string \<times> fileTypeStat) list \<Rightarrow> (string \<times> fileTypeStat) list" where
  "sortEntriesByAdditions xs = sort_key (\<lambda>(ext, st). - ft_additions st) xs"

definition digit :: "nat \<Rightarrow> char" where
  "digit d = char_of (48 + d)"

fun showNat :: "nat \<Rightarrow> string" where
  "showNat n = (if n < 10 then [digit n] else showNat (n div 10) @ [digit (n mod 10)])"

definition showInt :: "int \<Rightarrow> string" where
  "showInt i = (if i < 0 then ''-'' @ showNat (nat (- i)) else showNat (nat i))"

definition newline :: string where
  "newline = [CHR 0x0A]"

definition modeName :: "mode \<Rightarrow> string" where
  "modeName m = (if m = SingleMode then ''Single Repository'' else ''All Repositories'')"

definition topRepoLine :: "world \<Rightarrow> nat \<times> repoStat \<Rightarrow> string" where
  "topRepoLine w = (\<lambda>(index, repo).
     showNat (index + 1) @ ''. '' @ rs_name repo @ '': +'' @ toLocaleString w (rs_additions repo)
       @ '' lines ('' @ showNat (rs_commits repo) @ '' commits)'' @ newline)"

definition topFileTypeLine :: "world \<Rightarrow> nat \<times> string \<times> fileTypeStat \<Rightarrow> string" where
  "topFileTypeLine w = (\<lambda>(index, ext, st).
     showNat (index + 1) @ ''. .'' @ ext @ '': +'' @ toLocaleString w (ft_additions st)
       @ '' lines'' @ newline)"

text \<open>The text up to the two rankings (lines 486 to 518).\<close>

definition summaryHead :: "world \<Rightarrow> calculator \<Rightarrow> runResult \<Rightarrow> string" where
  "summaryHead w c results =
     ''GitHub Lines of Code Analysis for '' @ username c @ '' ('' @ showInt (year c) @ '')'' @ newline
     @ replicate 60 (CHR ''='') @ newline @ newline
     @ ''Analysis Date: '' @ processedAt results @ newline
     @ ''Analysis Mode: '' @ modeName (analysisMode results) @ newline
     @ ''Total API Calls Made: ''
         @ toLocaleString w (int (totalApiCalls (runtimeStats results))) @ newline @ newline
     @ ''OVERALL STATISTICS:'' @ newline
     @ ''- Total Lines Added: '' @ toLocaleString w (totalAdditions results) @ newline
     @ ''- Total Lines Deleted: '' @ toLocaleString w (totalDeletions results) @ newline
     @ ''- Net Lines of Code: '' @ toLocaleString w (netLines results) @ newline
     @ ''- Total Commits: '' @ toLocaleString w (int (totalCommits results)) @ newline
     @ ''- Repositories Analyzed: '' @ showNat (length (repoStats results)) @ newline @ newline
     @ ''PROCESSING STATUS:'' @ newline
     @ ''- Successfully processed: '' @ showNat (successful (processingStatus results))
         @ '' repositories'' @ newline
     @ ''- Failed to process: '' @ showNat (failed (processingStatus results))
         @ '' repositories'' @ newline @ newline
     @ (if failed (processingStatus results) > 0
        then ''FAILED REPOSITORIES:'' @ newline
             @ concat (map (\<lambda>repo. ''- '' @ repo @ newline) (failedRepos (processingStatus results)))
             @ newline
        else [])
     @ (if rt_truncatedCommits (runtimeStats results) > 0
        then ''WARNINGS:'' @ newline
             @ ''- '' @ showNat (rt_truncatedCommits (runtimeStats results))
             @ '' commits had truncated data due to size'' @ newline @ newline
        else [])"

definition fileTypesHeading :: string where
  "fileTypesHeading = newline @ ''TOP 10 FILE TYPES BY LINES ADDED:'' @ newline"

text \<open>The entries that the file-type ranking enumerates (lines 530 to 532).\<close>

definition topFileTypes :: "runResult \<Rightarrow> (string \<times> fileTypeStat) list" where
  "topFileTypes results = take 10 (sortEntriesByAdditions (fileTypeStats results))"

text \<open>\<open>generateTextSummary\<close> returns the text; the second component is the result
  object after the call, whose \<open>repoStats\<close> array has been sorted.\<close>

definition generateTextSummary :: "world \<Rightarrow> calculator \<Rightarrow> runResult \<Rightarrow> string \<times> runResult" where
  "generateTextSummary w c results =
     (let summary = summaryHead w c results;
          summary = summary @ ''TOP 10 REPOSITORIES BY LINES ADDED:'' @ newline;
          results = results\<lparr>repoStats := sortByAdditions (repoStats results)\<rparr>;
          topRepos = take 10 (repoStats results);
          summary = summary @ concat (map (topRepoLine w) (enumerate 0 topRepos));
          summary = summary @ fileTypesHeading;
          summary = summary @ concat (map (topFileTypeLine w) (enumerate 0 (topFileTypes results)))
      in (summary, results))"

text \<open>\<open>printSummary\<close> writes to the console only; what it leaves behind is the result
  object with its \<open>repoStats\<close> array sorted (lines 577 to 579).\<close>

definition printSummary :: "runResult \<Rightarrow> runResult" where
  "printSummary results = results\<lparr>repoStats := sortByAdditions (repoStats results)\<rparr>"

text \<open>\<open>saveResults\<close> writes \<open>JSON.stringify(results)\<close> first and the text summary second.
  The JSON document is the result object as it is at that moment. Failures of the file
  system are not modelled.\<close>

record savedReports =
  detailsDocument :: runResult
  summaryDocument :: string

definition saveResults :: "world \<Rightarrow> calculator \<Rightarrow> runResult \<Rightarrow> savedReports \<times> runResult" where
  "saveResults w c results =
     (let details = results;
          (summary, results') = generateTextSummary w c results
      in (\<lparr> detailsDocument = details, summaryDocument = summary \<rparr>, results'))"

datatype outcome = Exit1 | Finished savedReports runResult

text \<open>\<open>main\<close>, given the credentials of the environment, the analysis year already
  parsed, and the first command-line argument.\<close>

definition main :: "world \<Rightarrow> string option \<Rightarrow> string option \<Rightarrow> int \<Rightarrow> string option \<Rightarrow> outcome" where
  "main w token user yr arg =
     (case (token, user) of
        (Some tok, Some usr) \<Rightarrow>
          if tok = [] \<or> usr = [] then Exit1
          else
            (let targetRepo = (case arg of None \<Rightarrow> None
                                | Some a \<Rightarrow> if a = [] then None else Some a);
                 calc = newCalculator w usr yr
             in case calculateLOCForYear w calc targetRepo of
                  (Inl msg, calc') \<Rightarrow> Exit1
                | (Inr results, calc') \<Rightarrow>
                    (let results = printSummary results;
                         (saved, results) = saveResults w calc' results
                     in Finished saved results))
      | _ \<Rightarrow> Exit1)"

section \<open>Vocabulary of the properties\<close>

text \<open>The retry back-offs among the recorded suspensions.\<close>

fun backoffOf :: "timer \<Rightarrow> nat list" where
  "backoffOf (RetryBackoff d) = [d]"
| "backoffOf (RateLimitWait d) = []"
| "backoffOf (BaseDelay d) = []"

definition backoffs :: "calculator \<Rightarrow> nat list" where
  "backoffs c = concat (map backoffOf (timers c))"

text \<open>A not-found or conflict response.\<close>

definition notFoundOrConflict :: "apiError \<Rightarrow> bool" where
  "notFoundOrConflict e = (status e = Some 404 \<or> status e = Some 409)"

text \<open>
  The retry policy in the specification's words, over the outcomes of the successive
  attempts: a response gives its statistics; a not-found or conflict error gives zero
  statistics at once; any other error moves on to the next attempt, and zero statistics
  are the result when no attempt is left. The second component counts the attempts made.
\<close>

fun retryPolicy :: "(apiError + commitData) list \<Rightarrow> commitStats \<times> nat" where
  "retryPolicy [] = (zeroStats, 0)"
| "retryPolicy (Inr d # later) = (statsOfResponse d, 1)"
| "retryPolicy (Inl e # later) =
     (if notFoundOrConflict e then (zeroStats, 1)
      else (fst (retryPolicy later), snd (retryPolicy later) + 1))"

text \<open>
  The exclusion rules read as conditions on the path: endings, beginnings, and texts that
  may not occur anywhere in it.
\<close>

definition excludedEndings :: "string list" where
  "excludedEndings =
     [''package-lock.json'', ''yarn.lock'', ''pnpm-lock.yaml'', ''composer.lock'',
      ''Gemfile.lock'', ''poetry.lock'', ''Pipfile.lock'',
      ''.min.js'', ''.min.css'', ''.bundle.js'', ''.bundle.css'', ''.map'',
      ''.jpg'', ''.jpeg'', ''.png'', ''.gif'', ''.svg'', ''.ico'', ''.pdf'', ''.zip'', ''.tar'',
      ''.gz'', ''.rar'', ''.7z'', ''.exe'', ''.dmg'',
      ''.mp4'', ''.avi'', ''.mov'', ''.wmv'', ''.mp3'', ''.wav'', ''.ogg'',
      ''.db'', ''.sqlite'', ''.sqlite3'', ''.log'', ''.logs'']"

definition excludedBeginnings :: "string list" where
  "excludedBeginnings =
     [''dist/'', ''build/'', ''out/'', ''target/'', ''bin/'', ''obj/'', ''generated/'',
      ''docs/_build/'', ''site/'', ''logs/'']"

definition excludedAnywhere :: "string list" where
  "excludedAnywhere =
     [''node_modules/'', ''vendor/'', ''__pycache__/'', ''.pytest_cache/'', ''.generated.'',
      ''.auto.'', ''.vscode/'', ''.idea/'']"

definition excludedPath :: "string \<Rightarrow> bool" where
  "excludedPath p =
     (list_ex (\<lambda>x. suffix x p) excludedEndings
      \<or> list_ex (\<lambda>x. prefix x p) excludedBeginnings
      \<or> list_ex (\<lambda>x. sublist x p) excludedAnywhere)"

text \<open>The outcomes of the three requests that follow the state \<open>c\<close>.\<close>

definition attemptOutcomes ::
  "world \<Rightarrow> calculator \<Rightarrow> string \<Rightarrow> string \<Rightarrow> string \<Rightarrow> (apiError + commitData) list" where
  "attemptOutcomes w c owner repo ref =
     [getCommit w (requestCount c + 1) owner repo ref,
      getCommit w (requestCount c + 2) owner repo ref,
      getCommit w (requestCount c + 3) owner repo ref]"

text \<open>A remote whose requests fail with a server error, except that the first page of
  every commit list arrives, with two commits.\<close>

definition failingWorld :: world where
  "failingWorld =
     \<lparr> listForAuthenticatedUser = (\<lambda>n page. Inl (ApiError (Some 500) ''Server Error'')),
       listCommits = (\<lambda>n owner repo page.
          if page = 1 then Inr [\<lparr>sha = ''c1''\<rparr>, \<lparr>sha = ''c2''\<rparr>]
          else Inl (ApiError (Some 500) ''Server Error'')),
       getCommit = (\<lambda>n owner repo ref. Inl (ApiError (Some 500) ''Server Error'')),
       dateNow = (\<lambda>n. (1000 * int n, 1000 * int n)),
       constructedAt = 0,
       processedAtStamp = ''2025-06-01T00:00:00.000Z'',
       toLocaleString = showInt,
       validYear = (\<lambda>y. 1000 \<le> y \<and> y \<le> 9999) \<rparr>"

text \<open>A remote that answers every get-commit request with not-found, and one that
  answers every get-commit request with the same response; a response with a given number
  of file records and a given total of changes.\<close>

definition notFoundWorld :: world where
  "notFoundWorld =
     failingWorld\<lparr>getCommit := (\<lambda>n owner repo ref. Inl (ApiError (Some 404) ''Not Found''))\<rparr>"

definition respondingWorld :: "commitData \<Rightarrow> world" where
  "respondingWorld d = failingWorld\<lparr>getCommit := (\<lambda>n owner repo ref. Inr d)\<rparr>"

definition responseWith :: "nat \<Rightarrow> int \<Rightarrow> commitData" where
  "responseWith nfiles changes =
     \<lparr> data_stats = Some \<lparr> stats_additions = Some changes, stats_deletions = Some 0,
                             stats_total = Some changes \<rparr>,
       data_files = Some (replicate nfiles
          (Some \<lparr> filename = ''src/a.js'', file_additions = Some 1, file_deletions = Some 0 \<rparr>)) \<rparr>"






text \<open>
  A remote with three repositories. \<open>me/a\<close> has one commit that adds 5 lines and deletes 1;
  \<open>me/b\<close> has one commit that adds 20 lines and deletes 3 in a source file and adds 1000
  lines to a lock file; \<open>me/c\<close> has two commits, the first adding 7 lines, the second with
  a null entry in its file array.
\<close>

definition sourceFile :: "string \<Rightarrow> int \<Rightarrow> int \<Rightarrow> fileChange option" where
  "sourceFile path a d = Some \<lparr> filename = path, file_additions = Some a, file_deletions = Some d \<rparr>"

definition commitWith :: "int \<Rightarrow> int \<Rightarrow> fileChange option list \<Rightarrow> apiError + commitData" where
  "commitWith a d fs =
     Inr \<lparr> data_stats = Some \<lparr> stats_additions = Some a, stats_deletions = Some d,
                                 stats_total = Some (a + d) \<rparr>,
           data_files = Some fs \<rparr>"

definition sampleRepo :: "string \<Rightarrow> int \<Rightarrow> repository" where
  "sampleRepo nm kb =
     \<lparr> repo_name = nm, full_name = ''me/'' @ nm, owner_login = Some ''me'', repo_size = kb \<rparr>"

definition sampleWorld :: world where
  "sampleWorld =
     \<lparr> listForAuthenticatedUser = (\<lambda>n page.
          if page = 1 then Inr [sampleRepo ''a'' 10, sampleRepo ''b'' 20, sampleRepo ''c'' 30]
          else Inr []),
       listCommits = (\<lambda>n owner repo page.
          if page = 1 then
            (if repo = ''a'' then Inr [\<lparr>sha = ''a1''\<rparr>]
             else if repo = ''b'' then Inr [\<lparr>sha = ''b1''\<rparr>]
             else Inr [\<lparr>sha = ''c1''\<rparr>, \<lparr>sha = ''c2''\<rparr>])
          else Inr []),
       getCommit = (\<lambda>n owner repo ref.
          if ref = ''a1'' then commitWith 5 1 [sourceFile ''src/a.js'' 5 1]
          else if ref = ''b1'' then
            commitWith 1020 3 [sourceFile ''src/b.js'' 20 3, sourceFile ''package-lock.json'' 1000 0]
          else if ref = ''c1'' then commitWith 7 0 [sourceFile ''src/c.js'' 7 0]
          else commitWith 1 0 [None]),
       dateNow = (\<lambda>n. (1000 * int n, 1000 * int n)),
       constructedAt = 0,
       processedAtStamp = ''2025-06-01T00:00:00.000Z'',
       toLocaleString = showInt,
       validYear = (\<lambda>y. 1000 \<le> y \<and> y \<le> 9999) \<rparr>"

definition sampleCalculator :: calculator where
  "sampleCalculator = newCalculator sampleWorld ''me'' 2025"

text \<open>What a run over the sample world reports.\<close>

definition sampleResults :: runResult where
  "sampleResults =
     \<lparr> totalAdditions = 25, totalDeletions = 4, netLines = 21, totalCommits = 2,
       repoStats =
         [\<lparr> rs_name = ''me/a'', rs_additions = 5, rs_deletions = 1, rs_netLines = 4,
             rs_commits = 1, rs_sizeKB = 10, rs_truncatedCommits = 0 \<rparr>,
          \<lparr> rs_name = ''me/b'', rs_additions = 20, rs_deletions = 3, rs_netLines = 17,
             rs_commits = 1, rs_sizeKB = 20, rs_truncatedCommits = 0 \<rparr>],
       fileTypeStats = [], warnings = [],
       processedAt = ''2025-06-01T00:00:00.000Z'',
       runtimeStats = \<lparr> totalApiCalls = 12, rt_truncatedCommits = 0, skippedCommits = 0 \<rparr>,
       processingStatus = \<lparr> successful = 2, failed = 1, failedRepos = [''me/c''] \<rparr>,
       analysisMode = AllMode \<rparr>"

text \<open>
  The repositories of a list whose processing succeeds, and those whose processing fails,
  when the list is processed in order from the state \<open>c\<close>.
\<close>

fun succeeding :: "world \<Rightarrow> calculator \<Rightarrow> repository list \<Rightarrow> repository list" where
  "succeeding w c [] = []"
| "succeeding w c (repo # rest) =
     (if success (fst (processRepository w c repo))
      then repo # succeeding w (snd (processRepository w c repo)) rest
      else succeeding w (snd (processRepository w c repo)) rest)"

fun failing :: "world \<Rightarrow> calculator \<Rightarrow> repository list \<Rightarrow> repository list" where
  "failing w c [] = []"
| "failing w c (repo # rest) =
     (if success (fst (processRepository w c repo))
      then failing w (snd (processRepository w c repo)) rest
      else repo # failing w (snd (processRepository w c repo)) rest)"

text \<open>The documents that a completed run has written.\<close>

fun savedOf :: "outcome \<Rightarrow> savedReports option" where
  "savedOf Exit1 = None"
| "savedOf (Finished saved results) = Some saved"

text \<open>Descending order of \<open>additions\<close>.\<close>

definition descendingAdditions :: "repoStat list \<Rightarrow> bool" where
  "descendingAdditions xs = sorted_wrt (\<lambda>a b. rs_additions a \<ge> rs_additions b) xs"

declare getAllRepositories_loop.simps [simp del]
declare getCommitsForRepo_loop.simps [simp del]
declare getCommitStatsWithRetry_from.simps [simp del]
declare showNat.simps [simp del]

section \<open>Basic facts\<close>

lemma requestCount_rateLimitCheck: "requestCount (rateLimitCheck w c) = requestCount c + 1"
  by (simp add: rateLimitCheck_def sleep_def Let_def split: prod.splits)


lemma sleep_fields:
  "requestCount (sleep t c) = requestCount c"
  "username (sleep t c) = username c"
  "year (sleep t c) = year c"
  "maxRequestsPerHour (sleep t c) = maxRequestsPerHour c"
  "startTime (sleep t c) = startTime c"
  "timers (sleep t c) = timers c @ [t]"
  by (simp_all add: sleep_def)


lemma commits_loop_error:
  "totalFetched < maxCommitsPerRepo \<Longrightarrow>
   listCommits w (requestCount c + 1) owner repo page = Inl e \<Longrightarrow>
   getCommitsForRepo_loop w c owner repo commits page totalFetched = (Inl e, rateLimitCheck w c)"
  by (subst getCommitsForRepo_loop.simps) (simp add: requestCount_rateLimitCheck)


lemma commits_loop_more:
  "totalFetched < maxCommitsPerRepo \<Longrightarrow>
   listCommits w (requestCount c + 1) owner repo page = Inr data \<Longrightarrow> data \<noteq> [] \<Longrightarrow>
   getCommitsForRepo_loop w c owner repo commits page totalFetched =
     getCommitsForRepo_loop w (rateLimitCheck w c) owner repo (commits @ data) (page + 1)
       (totalFetched + length data)"
  by (subst getCommitsForRepo_loop.simps) (simp add: requestCount_rateLimitCheck)

lemma stats_loop_done:
  "\<not> attempt \<le> maxRetries \<Longrightarrow>
   getCommitStatsWithRetry_from w c owner repo ref maxRetries attempt = (None, c)"
  by (simp add: getCommitStatsWithRetry_from.simps)

lemma stats_loop_response:
  "attempt \<le> maxRetries \<Longrightarrow> getCommit w (requestCount c + 1) owner repo ref = Inr d \<Longrightarrow>
   getCommitStatsWithRetry_from w c owner repo ref maxRetries attempt =
     (Some (statsOfResponse d), rateLimitCheck w c)"
  by (subst getCommitStatsWithRetry_from.simps) (simp add: requestCount_rateLimitCheck)

lemma stats_loop_skip:
  "attempt \<le> maxRetries \<Longrightarrow> getCommit w (requestCount c + 1) owner repo ref = Inl e \<Longrightarrow>
   status e = Some 409 \<or> status e = Some 404 \<Longrightarrow>
   getCommitStatsWithRetry_from w c owner repo ref maxRetries attempt =
     (Some zeroStats, rateLimitCheck w c)"
  by (subst getCommitStatsWithRetry_from.simps) (simp add: requestCount_rateLimitCheck)

lemma stats_loop_last:
  "getCommit w (requestCount c + 1) owner repo ref = Inl e \<Longrightarrow>
   getCommitStatsWithRetry_from w c owner repo ref maxRetries maxRetries =
     (Some zeroStats, rateLimitCheck w c)"
  by (subst getCommitStatsWithRetry_from.simps) (simp add: requestCount_rateLimitCheck Let_def)

lemma stats_loop_retry:
  "attempt < maxRetries \<Longrightarrow> getCommit w (requestCount c + 1) owner repo ref = Inl e \<Longrightarrow>
   status e \<noteq> Some 409 \<Longrightarrow> status e \<noteq> Some 404 \<Longrightarrow>
   getCommitStatsWithRetry_from w c owner repo ref maxRetries attempt =
     getCommitStatsWithRetry_from w (sleep (RetryBackoff (2000 * attempt)) (rateLimitCheck w c))
       owner repo ref maxRetries (attempt + 1)"
  by (subst getCommitStatsWithRetry_from.simps) (simp add: requestCount_rateLimitCheck)

lemma backoffs_rateLimitCheck: "backoffs (rateLimitCheck w c) = backoffs c"
  by (simp add: backoffs_def rateLimitCheck_def sleep_def Let_def split: prod.splits)

lemma backoffs_sleep: "backoffs (sleep (RetryBackoff d) c) = backoffs c @ [d]"
  by (simp add: backoffs_def sleep_def)

lemma upt_0_Suc_map: "[0 ..< Suc m] = 0 # map Suc [0 ..< m]"
  by (simp add: upt_conv_Cons map_Suc_upt del: upt_Suc)

lemma retryPolicy_used: "xs \<noteq> [] \<Longrightarrow> snd (retryPolicy xs) \<ge> 1"
  by (cases xs rule: retryPolicy.cases) auto

text \<open>The outcomes of the attempts that are left when the loop is at a given attempt.\<close>

lemma stats_loop_refines:
  "maxRetries - attempt = m \<Longrightarrow> attempt \<le> maxRetries \<Longrightarrow>
   getCommitStatsWithRetry_from w c owner repo ref maxRetries attempt = (r, c') \<Longrightarrow>
   r = Some (fst (retryPolicy (map (\<lambda>k. getCommit w (requestCount c + Suc k) owner repo ref)
                                 [0 ..< Suc m]))) \<and>
   requestCount c' = requestCount c
       + snd (retryPolicy (map (\<lambda>k. getCommit w (requestCount c + Suc k) owner repo ref)
                             [0 ..< Suc m])) \<and>
   backoffs c' = backoffs c @ map (\<lambda>k. 2000 * (attempt + k))
       [0 ..< snd (retryPolicy (map (\<lambda>k. getCommit w (requestCount c + Suc k) owner repo ref)
                             [0 ..< Suc m])) - 1]"
proof (induction m arbitrary: attempt c)
  case 0
  then have eq: "attempt = maxRetries" by simp
  show ?case
  proof (cases "getCommit w (requestCount c + 1) owner repo ref")
    case (Inr d)
    with stats_loop_response[OF "0.prems"(2) Inr] "0.prems"(3) show ?thesis
      by (auto simp: requestCount_rateLimitCheck backoffs_rateLimitCheck)
  next
    case (Inl e)
    with stats_loop_last[OF Inl, of maxRetries] "0.prems"(3) eq show ?thesis
      by (auto simp: requestCount_rateLimitCheck backoffs_rateLimitCheck)
  qed
next
  case (Suc m)
  then have lt: "attempt < maxRetries" by simp
  let ?c = "rateLimitCheck w c"
  let ?rest = "map (\<lambda>k. getCommit w (requestCount c + Suc (Suc k)) owner repo ref) [0 ..< Suc m]"
  have split: "map (\<lambda>k. getCommit w (requestCount c + Suc k) owner repo ref) [0 ..< Suc (Suc m)] =
          getCommit w (requestCount c + 1) owner repo ref # ?rest"
    by (simp only: upt_0_Suc_map[of "Suc m"] list.map map_map o_def) simp
  show ?case
  proof (cases "getCommit w (requestCount c + 1) owner repo ref")
    case (Inr d)
    with stats_loop_response[OF Suc.prems(2) Inr] Suc.prems(3) show ?thesis
      unfolding split by (auto simp: requestCount_rateLimitCheck backoffs_rateLimitCheck)
  next
    case (Inl e)
    show ?thesis
    proof (cases "notFoundOrConflict e")
      case True
      then have "status e = Some 409 \<or> status e = Some 404"
        by (auto simp: notFoundOrConflict_def)
      from stats_loop_skip[OF Suc.prems(2) Inl this] Suc.prems(3) Inl True show ?thesis
        unfolding split by (auto simp: requestCount_rateLimitCheck backoffs_rateLimitCheck)
    next
      case False
      then have ne: "status e \<noteq> Some 409" "status e \<noteq> Some 404"
        by (auto simp: notFoundOrConflict_def)
      let ?c1 = "sleep (RetryBackoff (2000 * attempt)) ?c"
      have rec: "getCommitStatsWithRetry_from w ?c1 owner repo ref maxRetries (attempt + 1) = (r, c')"
        using stats_loop_retry[OF lt Inl ne] Suc.prems(3) by simp
      have rc: "requestCount ?c1 = Suc (requestCount c)"
        by (simp add: sleep_fields requestCount_rateLimitCheck)
      have "maxRetries - (attempt + 1) = m" "attempt + 1 \<le> maxRetries"
        using Suc.prems(1) lt by simp_all
      from Suc.IH[OF this rec]
      have ih: "r = Some (fst (retryPolicy ?rest))"
           "requestCount c' = Suc (requestCount c) + snd (retryPolicy ?rest)"
           "backoffs c' = backoffs ?c1 @ map (\<lambda>k. 2000 * (attempt + 1 + k)) [0 ..< snd (retryPolicy ?rest) - 1]"
        unfolding rc by auto
      have "?rest \<noteq> []" by simp
      from retryPolicy_used[OF this] obtain u where u: "snd (retryPolicy ?rest) = Suc u"
        by (cases "snd (retryPolicy ?rest)") auto
      have bk: "map (\<lambda>k. 2000 * (attempt + k)) [0 ..< Suc u]
                = 2000 * attempt # map (\<lambda>k. 2000 * (attempt + 1 + k)) [0 ..< u]"
        by (simp only: upt_0_Suc_map list.map map_map o_def) simp
      show ?thesis
        unfolding split using ih Inl False u bk
        by (simp add: backoffs_sleep backoffs_rateLimitCheck)
    qed
  qed
qed

lemma retryPolicy_le: "snd (retryPolicy xs) \<le> length xs"
  by (induction xs rule: retryPolicy.induct) auto

lemma getCommitStatsWithRetry_refines:
  "\<exists>c'. getCommitStatsWithRetry w c owner repo ref 3 =
           (Some (fst (retryPolicy (attemptOutcomes w c owner repo ref))), c')
       \<and> requestCount c' = requestCount c + snd (retryPolicy (attemptOutcomes w c owner repo ref))
       \<and> backoffs c' = backoffs c @
            take (snd (retryPolicy (attemptOutcomes w c owner repo ref)) - 1) [2000, 4000]"
proof -
  obtain r c' where res: "getCommitStatsWithRetry_from w c owner repo ref 3 1 = (r, c')"
    by (cases "getCommitStatsWithRetry_from w c owner repo ref 3 1") auto
  have out: "map (\<lambda>k. getCommit w (requestCount c + Suc k) owner repo ref) [0 ..< Suc 2]
             = attemptOutcomes w c owner repo ref"
    by (simp add: attemptOutcomes_def upt_rec numeral_2_eq_2 numeral_3_eq_3)
  have "snd (retryPolicy (attemptOutcomes w c owner repo ref)) \<ge> 1"
       "snd (retryPolicy (attemptOutcomes w c owner repo ref)) \<le> 3"
    using retryPolicy_used[of "attemptOutcomes w c owner repo ref"]
          retryPolicy_le[of "attemptOutcomes w c owner repo ref"]
    by (simp_all add: attemptOutcomes_def)
  then have used: "snd (retryPolicy (attemptOutcomes w c owner repo ref)) \<in> {1, 2, 3}"
    by auto
  have "(3::nat) - 1 = 2" "(1::nat) \<le> 3" by simp_all
  from stats_loop_refines[OF this res] show ?thesis
    unfolding out getCommitStatsWithRetry_def res using used
    by (auto simp: upt_rec)
qed

section \<open>The commit stat fetcher never fails\<close>

text \<open>
  C2. For every owner, repository and commit, \<open>getCommitStatsWithRetry\<close> with its three
  attempts returns statistics. It has no way to raise: its result is what the retry policy
  of the specification gives on the outcomes of the next three requests, it makes as many
  requests as the policy uses attempts, and before the second and the third attempt it waits
  2000 and 4000 milliseconds. In particular a first response that is not-found or conflict
  gives zero statistics, not truncated, after one request and no wait; and three failures of
  another kind give zero statistics, not truncated, after three requests and the waits
  2000 and 4000.
\<close>

theorem getCommitStatsWithRetry_policy:
  "(\<exists>c'. getCommitStatsWithRetry w c owner repo ref 3 =
            (Some (fst (retryPolicy (attemptOutcomes w c owner repo ref))), c')
        \<and> requestCount c' = requestCount c + snd (retryPolicy (attemptOutcomes w c owner repo ref))
        \<and> backoffs c' = backoffs c @
             take (snd (retryPolicy (attemptOutcomes w c owner repo ref)) - 1) [2000, 4000])
   \<and> (\<forall>e. getCommit w (requestCount c + 1) owner repo ref = Inl e \<and> notFoundOrConflict e \<longrightarrow>
          getCommitStatsWithRetry w c owner repo ref 3 = (Some zeroStats, rateLimitCheck w c))
   \<and> (\<forall>e1 e2 e3.
          getCommit w (requestCount c + 1) owner repo ref = Inl e1 \<and> \<not> notFoundOrConflict e1 \<and>
          getCommit w (requestCount c + 2) owner repo ref = Inl e2 \<and> \<not> notFoundOrConflict e2 \<and>
          getCommit w (requestCount c + 3) owner repo ref = Inl e3 \<longrightarrow>
          (\<exists>c'. getCommitStatsWithRetry w c owner repo ref 3 = (Some zeroStats, c')
              \<and> requestCount c' = requestCount c + 3
              \<and> backoffs c' = backoffs c @ [2000, 4000]))
   \<and> cs_truncated zeroStats = False \<and> cs_additions zeroStats = 0 \<and> cs_deletions zeroStats = 0
   \<and> cs_total zeroStats = 0 \<and> cs_files zeroStats = []"
proof (intro conjI allI impI)
  show "\<exists>c'. getCommitStatsWithRetry w c owner repo ref 3 =
            (Some (fst (retryPolicy (attemptOutcomes w c owner repo ref))), c')
        \<and> requestCount c' = requestCount c + snd (retryPolicy (attemptOutcomes w c owner repo ref))
        \<and> backoffs c' = backoffs c @
             take (snd (retryPolicy (attemptOutcomes w c owner repo ref)) - 1) [2000, 4000]"
    by (rule getCommitStatsWithRetry_refines)
next
  fix e
  assume "getCommit w (requestCount c + 1) owner repo ref = Inl e \<and> notFoundOrConflict e"
  then have "getCommit w (requestCount c + 1) owner repo ref = Inl e"
    and "status e = Some 409 \<or> status e = Some 404"
    by (auto simp: notFoundOrConflict_def)
  then show "getCommitStatsWithRetry w c owner repo ref 3 = (Some zeroStats, rateLimitCheck w c)"
    unfolding getCommitStatsWithRetry_def by (intro stats_loop_skip) simp_all
next
  fix e1 e2 e3
  assume a: "getCommit w (requestCount c + 1) owner repo ref = Inl e1 \<and> \<not> notFoundOrConflict e1 \<and>
          getCommit w (requestCount c + 2) owner repo ref = Inl e2 \<and> \<not> notFoundOrConflict e2 \<and>
          getCommit w (requestCount c + 3) owner repo ref = Inl e3"
  then have "retryPolicy (attemptOutcomes w c owner repo ref) = (zeroStats, 3)"
    by (simp add: attemptOutcomes_def)
  with getCommitStatsWithRetry_refines[of w c owner repo ref]
  show "\<exists>c'. getCommitStatsWithRetry w c owner repo ref 3 = (Some zeroStats, c')
              \<and> requestCount c' = requestCount c + 3
              \<and> backoffs c' = backoffs c @ [2000, 4000]"
    by simp
qed (simp_all add: zeroStats_def)

text \<open>Three server errors in a row, from a fresh calculator; and a not-found response.\<close>

theorem getCommitStatsWithRetry_policy_witness:
  "fst (getCommitStatsWithRetry failingWorld (newCalculator failingWorld ''me'' 2025)
          ''me'' ''repo'' ''c1'' 3) = Some zeroStats
   \<and> requestCount (snd (getCommitStatsWithRetry failingWorld (newCalculator failingWorld ''me'' 2025)
          ''me'' ''repo'' ''c1'' 3)) = 3
   \<and> backoffs (snd (getCommitStatsWithRetry failingWorld (newCalculator failingWorld ''me'' 2025)
          ''me'' ''repo'' ''c1'' 3)) = [2000, 4000]
   \<and> fst (getCommitStatsWithRetry notFoundWorld (newCalculator failingWorld ''me'' 2025)
          ''me'' ''repo'' ''c1'' 3) = Some zeroStats
   \<and> requestCount (snd (getCommitStatsWithRetry notFoundWorld (newCalculator failingWorld ''me'' 2025)
          ''me'' ''repo'' ''c1'' 3)) = 1
   \<and> backoffs (snd (getCommitStatsWithRetry notFoundWorld (newCalculator failingWorld ''me'' 2025)
          ''me'' ''repo'' ''c1'' 3)) = []"
proof -
  let ?c = "newCalculator failingWorld ''me'' 2025"
  from getCommitStatsWithRetry_policy[of failingWorld ?c "''me''" "''repo''" "''c1''"]
  have three: "fst (getCommitStatsWithRetry failingWorld ?c ''me'' ''repo'' ''c1'' 3) = Some zeroStats
     \<and> requestCount (snd (getCommitStatsWithRetry failingWorld ?c ''me'' ''repo'' ''c1'' 3)) = 3
     \<and> backoffs (snd (getCommitStatsWithRetry failingWorld ?c ''me'' ''repo'' ''c1'' 3)) = [2000, 4000]"
    by (auto simp: failingWorld_def newCalculator_def notFoundOrConflict_def backoffs_def)
  from getCommitStatsWithRetry_policy[of notFoundWorld ?c "''me''" "''repo''" "''c1''"]
  have "getCommitStatsWithRetry notFoundWorld ?c ''me'' ''repo'' ''c1'' 3
          = (Some zeroStats, rateLimitCheck notFoundWorld ?c)"
    by (simp add: notFoundWorld_def failingWorld_def notFoundOrConflict_def)
  then have one: "fst (getCommitStatsWithRetry notFoundWorld ?c ''me'' ''repo'' ''c1'' 3) = Some zeroStats
     \<and> requestCount (snd (getCommitStatsWithRetry notFoundWorld ?c ''me'' ''repo'' ''c1'' 3)) = 1
     \<and> backoffs (snd (getCommitStatsWithRetry notFoundWorld ?c ''me'' ''repo'' ''c1'' 3)) = []"
    by (simp add: requestCount_rateLimitCheck backoffs_rateLimitCheck)
       (simp add: newCalculator_def backoffs_def)
  from three one show ?thesis by simp
qed

section \<open>Truncation flag\<close>

lemma statsOfResponse_truncated:
  "cs_truncated (statsOfResponse d) =
     (length (cs_files (statsOfResponse d)) \<ge> 300 \<or> cs_total (statsOfResponse d) > 50000)"
  by (simp add: statsOfResponse_def Let_def orZero_def exceedsBound_def split: option.splits)

lemma retryPolicy_truncated:
  "cs_truncated (fst (retryPolicy xs)) =
     (length (cs_files (fst (retryPolicy xs))) \<ge> 300 \<or> cs_total (fst (retryPolicy xs)) > 50000)"
  by (induction xs rule: retryPolicy.induct)
     (simp_all add: statsOfResponse_truncated, simp_all add: zeroStats_def)

text \<open>
  C3. Whatever \<open>getCommitStatsWithRetry\<close> returns, its truncation flag says that the file
  list has at least 300 entries or that the total of changes exceeds 50000; and a response
  that arrives at the first attempt is returned with the file list and the total it carries
  (an empty list and 0 when they are missing). So a response with 300 file records, or with
  a total of 60000, is flagged, and one with 10 file records and a total of 40 is not.
\<close>

theorem getCommitStatsWithRetry_truncated:
  "(\<forall>s c'. getCommitStatsWithRetry w c owner repo ref 3 = (Some s, c') \<longrightarrow>
       cs_truncated s = (length (cs_files s) \<ge> 300 \<or> cs_total s > 50000))
   \<and> (\<forall>d. getCommit w (requestCount c + 1) owner repo ref = Inr d \<longrightarrow>
         fst (getCommitStatsWithRetry w c owner repo ref 3) = Some (statsOfResponse d)
         \<and> cs_files (statsOfResponse d) = (case data_files d of None \<Rightarrow> [] | Some fs \<Rightarrow> fs)
         \<and> cs_total (statsOfResponse d) =
             (case data_stats d of None \<Rightarrow> 0 | Some st \<Rightarrow> orZero (stats_total st))
         \<and> cs_truncated (statsOfResponse d) =
             (length (case data_files d of None \<Rightarrow> [] | Some fs \<Rightarrow> fs) \<ge> 300
              \<or> (case data_stats d of None \<Rightarrow> 0 | Some st \<Rightarrow> orZero (stats_total st)) > 50000)
         \<and> (\<forall>fs. data_files d = Some fs \<and> length fs = 300 \<longrightarrow> cs_truncated (statsOfResponse d))
         \<and> (\<forall>st. data_stats d = Some st \<and> stats_total st = Some 60000 \<longrightarrow>
                cs_truncated (statsOfResponse d))
         \<and> (\<forall>fs st. data_files d = Some fs \<and> length fs = 10 \<and> data_stats d = Some st
                \<and> stats_total st = Some 40 \<longrightarrow> \<not> cs_truncated (statsOfResponse d)))"
proof (intro conjI allI impI)
  fix s c'
  assume "getCommitStatsWithRetry w c owner repo ref 3 = (Some s, c')"
  with getCommitStatsWithRetry_refines[of w c owner repo ref]
  have "s = fst (retryPolicy (attemptOutcomes w c owner repo ref))" by auto
  then show "cs_truncated s = (length (cs_files s) \<ge> 300 \<or> cs_total s > 50000)"
    by (simp only: retryPolicy_truncated)
next
  fix d
  assume "getCommit w (requestCount c + 1) owner repo ref = Inr d"
  then show "fst (getCommitStatsWithRetry w c owner repo ref 3) = Some (statsOfResponse d)"
    unfolding getCommitStatsWithRetry_def by (subst stats_loop_response) simp_all
qed (auto simp: statsOfResponse_def Let_def orZero_def exceedsBound_def split: option.splits)

text \<open>Responses with ten files and a total of 40, with 300 files, and with a total of
  60000.\<close>

theorem getCommitStatsWithRetry_truncated_witness:
  "cs_truncated (the (fst (getCommitStatsWithRetry (respondingWorld (responseWith 10 40))
       (newCalculator failingWorld ''me'' 2025) ''me'' ''repo'' ''c1'' 3))) = False
   \<and> length (cs_files (the (fst (getCommitStatsWithRetry (respondingWorld (responseWith 10 40))
       (newCalculator failingWorld ''me'' 2025) ''me'' ''repo'' ''c1'' 3)))) = 10
   \<and> cs_truncated (the (fst (getCommitStatsWithRetry (respondingWorld (responseWith 300 40))
       (newCalculator failingWorld ''me'' 2025) ''me'' ''repo'' ''c1'' 3))) = True
   \<and> cs_truncated (the (fst (getCommitStatsWithRetry (respondingWorld (responseWith 10 60000))
       (newCalculator failingWorld ''me'' 2025) ''me'' ''repo'' ''c1'' 3))) = True"
proof -
  let ?c = "newCalculator failingWorld ''me'' 2025"
  have r: "getCommit (respondingWorld d) n ''me'' ''repo'' ''c1'' = Inr d" for d n
    by (simp add: respondingWorld_def)
  from getCommitStatsWithRetry_truncated
         [of "respondingWorld (responseWith 10 40)" ?c "''me''" "''repo''" "''c1''"]
  have small: "cs_truncated (the (fst (getCommitStatsWithRetry (respondingWorld (responseWith 10 40))
         ?c ''me'' ''repo'' ''c1'' 3))) = False
     \<and> length (cs_files (the (fst (getCommitStatsWithRetry (respondingWorld (responseWith 10 40))
         ?c ''me'' ''repo'' ''c1'' 3)))) = 10"
    by (simp add: r) (simp add: responseWith_def orZero_def)
  from getCommitStatsWithRetry_truncated
         [of "respondingWorld (responseWith 300 40)" ?c "''me''" "''repo''" "''c1''"]
  have many: "cs_truncated (the (fst (getCommitStatsWithRetry (respondingWorld (responseWith 300 40))
         ?c ''me'' ''repo'' ''c1'' 3))) = True"
    by (simp add: r) (simp add: responseWith_def orZero_def)
  from getCommitStatsWithRetry_truncated
         [of "respondingWorld (responseWith 10 60000)" ?c "''me''" "''repo''" "''c1''"]
  have big: "cs_truncated (the (fst (getCommitStatsWithRetry (respondingWorld (responseWith 10 60000))
         ?c ''me'' ''repo'' ''c1'' 3))) = True"
    by (simp add: r) (simp add: responseWith_def orZero_def)
  from small many big show ?thesis by simp
qed

section \<open>A failing page of the commit list\<close>

text \<open>
  C1. The code does not keep the commits of the pages that arrived: when the first page of
  the commit list arrives with some commits and the request for the second page fails,
  \<open>getCommitsForRepo\<close> returns the empty list, after two requests. The \<open>try\<close> is around
  the whole loop and its handler returns \<open>[]\<close>, unlike \<open>getAllRepositories\<close>, whose
  handler is inside the loop and keeps the repositories collected so far.
\<close>

theorem getCommitsForRepo_page_error:
  "listCommits w (requestCount c + 1) owner repo 1 = Inr page1 \<and> page1 \<noteq> []
     \<and> length page1 < 5000
     \<and> listCommits w (requestCount c + 2) owner repo 2 = Inl e \<longrightarrow>
   fst (getCommitsForRepo w c owner repo) = []
   \<and> requestCount (snd (getCommitsForRepo w c owner repo)) = requestCount c + 2"
proof
  assume a: "listCommits w (requestCount c + 1) owner repo 1 = Inr page1 \<and> page1 \<noteq> []
     \<and> length page1 < 5000
     \<and> listCommits w (requestCount c + 2) owner repo 2 = Inl e"
  have "getCommitsForRepo_loop w c owner repo [] 1 0 =
        getCommitsForRepo_loop w (rateLimitCheck w c) owner repo ([] @ page1) (1 + 1) (0 + length page1)"
    using a by (intro commits_loop_more) (simp_all add: maxCommitsPerRepo_def)
  also have "\<dots> = (Inl e, rateLimitCheck w (rateLimitCheck w c))"
    using a by (intro commits_loop_error)
      (simp_all add: maxCommitsPerRepo_def requestCount_rateLimitCheck numeral_2_eq_2)
  finally show "fst (getCommitsForRepo w c owner repo) = []
   \<and> requestCount (snd (getCommitsForRepo w c owner repo)) = requestCount c + 2"
    by (simp add: getCommitsForRepo_def requestCount_rateLimitCheck)
qed

theorem getCommitsForRepo_page_error_witness:
  "listCommits failingWorld 1 ''me'' ''repo'' 1 = Inr [\<lparr>sha = ''c1''\<rparr>, \<lparr>sha = ''c2''\<rparr>]
   \<and> listCommits failingWorld 2 ''me'' ''repo'' 2 = Inl (ApiError (Some 500) ''Server Error'')
   \<and> fst (getCommitsForRepo failingWorld (newCalculator failingWorld ''me'' 2025) ''me'' ''repo'') = []"
  using getCommitsForRepo_page_error
    [of failingWorld "newCalculator failingWorld ''me'' 2025" "''me''" "''repo''"
        "[\<lparr>sha = ''c1''\<rparr>, \<lparr>sha = ''c2''\<rparr>]" "ApiError (Some 500) ''Server Error''"]
  by (simp add: failingWorld_def newCalculator_def)

text \<open>The sibling loop keeps what it has: a failing second page of the repository list.\<close>

lemma getAllRepositories_page_error:
  "listForAuthenticatedUser w (requestCount c + 1) 1 = Inr page1 \<Longrightarrow> page1 \<noteq> [] \<Longrightarrow>
   listForAuthenticatedUser w (requestCount c + 2) 2 = Inl e \<Longrightarrow>
   fst (getAllRepositories w c) = page1"
  unfolding getAllRepositories_def
  by (subst getAllRepositories_loop.simps, simp add: requestCount_rateLimitCheck Let_def,
      subst getAllRepositories_loop.simps,
      simp add: requestCount_rateLimitCheck Let_def numeral_2_eq_2)

section \<open>The file classifier\<close>

lemma startsWith_prefix: "startsWith l s = prefix l s"
  by (induction l s rule: startsWith.induct) auto

text \<open>The positions at which a match of each kind of expression can end.\<close>

lemma rx_run_Lit_iff:
  "(b', t) \<in> set (rx_run (Lit l) (b, s)) \<longleftrightarrow> s = l @ t \<and> b' = (b \<and> l = [])"
  by (auto simp: startsWith_prefix prefix_def)

lemma rx_run_Alt_iff:
  "(b', t) \<in> set (rx_run (Alt (map Lit ls)) (b, s)) \<longleftrightarrow>
     (\<exists>x \<in> set ls. s = x @ t \<and> b' = (b \<and> x = []))"
proof -
  have "(b', t) \<in> set (rx_run (Alt (map Lit ls)) (b, s)) \<longleftrightarrow>
        (\<exists>x \<in> set ls. (b', t) \<in> set (rx_run (Lit x) (b, s)))"
    by (simp del: rx_run.simps(1) add: o_def)
  then show ?thesis by (simp only: rx_run_Lit_iff)
qed

lemma rx_run_Eol_iff: "(b', t) \<in> set (rx_run Eol (b, s)) \<longleftrightarrow> s = [] \<and> t = [] \<and> b' = b"
  by auto

lemma rx_run_Bol_iff: "(b', t) \<in> set (rx_run Bol (b, s)) \<longleftrightarrow> b \<and> t = s \<and> b'"
  by auto

lemma rx_run_Seq_Cons_iff:
  "q \<in> set (rx_run (Seq (r # rs)) p) \<longleftrightarrow>
     (\<exists>b' t. (b', t) \<in> set (rx_run r p) \<and> q \<in> set (rx_run (Seq rs) (b', t)))"
  by auto

lemma rx_run_Seq_Nil_iff: "q \<in> set (rx_run (Seq []) p) \<longleftrightarrow> q = p"
  by auto

lemma nonempty_iff: "xs \<noteq> [] \<longleftrightarrow> (\<exists>q. q \<in> set xs)"
  by (cases xs) auto

lemmas rx_run_iffs = rx_run_Seq_Cons_iff rx_run_Seq_Nil_iff rx_run_Lit_iff rx_run_Alt_iff
  rx_run_Eol_iff rx_run_Bol_iff

lemma here_suffix_alt:
  "rx_run (Seq [Lit l, Alt (map Lit ls), Eol]) (b, s) \<noteq> [] \<longleftrightarrow> (\<exists>x \<in> set ls. l @ x = s)"
  unfolding nonempty_iff by (auto simp add: rx_run_iffs simp del: rx_run.simps)

lemma here_suffix: "rx_run (Seq [Lit l, Eol]) (b, s) \<noteq> [] \<longleftrightarrow> l = s"
  unfolding nonempty_iff by (auto simp add: rx_run_iffs simp del: rx_run.simps)

lemma here_inside: "rx_run (Seq [Lit l]) (b, s) \<noteq> [] \<longleftrightarrow> prefix l s"
  unfolding nonempty_iff by (auto simp add: rx_run_iffs prefix_def simp del: rx_run.simps)

lemma here_prefix: "rx_run (Seq [Bol, Lit l]) (b, s) \<noteq> [] \<longleftrightarrow> b \<and> prefix l s"
  unfolding nonempty_iff by (auto simp add: rx_run_iffs prefix_def simp del: rx_run.simps)

lemma here_prefix_alt:
  "rx_run (Seq [Bol, Alt (map Lit ls), Lit l]) (b, s) \<noteq> [] \<longleftrightarrow>
     b \<and> (\<exists>x \<in> set ls. prefix (x @ l) s)"
proof
  assume "rx_run (Seq [Bol, Alt (map Lit ls), Lit l]) (b, s) \<noteq> []"
  then show "b \<and> (\<exists>x \<in> set ls. prefix (x @ l) s)"
    unfolding nonempty_iff by (auto simp add: rx_run_iffs prefix_def simp del: rx_run.simps)
next
  assume a: "b \<and> (\<exists>x \<in> set ls. prefix (x @ l) s)"
  then obtain x zs where x: "x \<in> set ls" "s = x @ l @ zs"
    by (auto simp: prefix_def)
  have "(True, s) \<in> set (rx_run Bol (b, s))" using a by simp
  moreover have "(x = [], l @ zs) \<in> set (rx_run (Alt (map Lit ls)) (True, s))"
    using x by (simp only: rx_run_Alt_iff) auto
  moreover have "(x = [] \<and> l = [], zs) \<in> set (rx_run (Lit l) (x = [], l @ zs))"
    by (simp only: rx_run_Lit_iff)
  ultimately have "(x = [] \<and> l = [], zs) \<in> set (rx_run (Seq [Bol, Alt (map Lit ls), Lit l]) (b, s))"
    by (simp only: rx_run_Seq_Cons_iff rx_run_Seq_Nil_iff) blast
  then show "rx_run (Seq [Bol, Alt (map Lit ls), Lit l]) (b, s) \<noteq> []"
    unfolding nonempty_iff by blast
qed

lemma rx_from_suffix_alt:
  "rx_from (Seq [Lit l, Alt (map Lit ls), Eol]) b s \<longleftrightarrow> (\<exists>x \<in> set ls. suffix (l @ x) s)"
proof (induction s arbitrary: b)
  case Nil
  show ?case unfolding rx_from.simps here_suffix_alt by auto
next
  case (Cons c cs)
  show ?case unfolding rx_from.simps here_suffix_alt Cons.IH by (auto simp: suffix_Cons)
qed

lemma rx_from_suffix: "rx_from (Seq [Lit l, Eol]) b s \<longleftrightarrow> suffix l s"
proof (induction s arbitrary: b)
  case Nil
  show ?case unfolding rx_from.simps here_suffix by auto
next
  case (Cons c cs)
  show ?case unfolding rx_from.simps here_suffix Cons.IH by (auto simp: suffix_Cons)
qed

lemma rx_from_inside: "rx_from (Seq [Lit l]) b s \<longleftrightarrow> sublist l s"
proof (induction s arbitrary: b)
  case Nil
  show ?case unfolding rx_from.simps here_inside by auto
next
  case (Cons c cs)
  show ?case unfolding rx_from.simps here_inside Cons.IH by (auto simp: sublist_Cons_right)
qed

lemma rx_from_unanchored_Bol: "\<not> rx_from (Seq (Bol # rs)) False s"
  by (induction s) auto

text \<open>What \<open>test\<close> decides for each of the five shapes of rule in the list.\<close>

lemma rx_test_suffix: "rx_test (Seq [Lit l, Eol]) s \<longleftrightarrow> suffix l s"
  by (simp add: rx_test_def rx_from_suffix)

lemma rx_test_suffix_alt:
  "rx_test (Seq [Lit l, Alt (map Lit ls), Eol]) s \<longleftrightarrow> (\<exists>x \<in> set ls. suffix (l @ x) s)"
  by (simp add: rx_test_def rx_from_suffix_alt)

lemma rx_test_inside: "rx_test (Seq [Lit l]) s \<longleftrightarrow> sublist l s"
  by (simp add: rx_test_def rx_from_inside)

lemma rx_test_prefix: "rx_test (Seq [Bol, Lit l]) s \<longleftrightarrow> prefix l s"
  unfolding rx_test_def
  by (cases s) (simp_all only: rx_from.simps here_prefix rx_from_unanchored_Bol, auto)

lemma rx_test_prefix_alt:
  "rx_test (Seq [Bol, Alt (map Lit ls), Lit l]) s \<longleftrightarrow> (\<exists>x \<in> set ls. prefix (x @ l) s)"
  unfolding rx_test_def
  by (cases s) (simp_all only: rx_from.simps here_prefix_alt rx_from_unanchored_Bol, auto)

lemma excludePatterns_shapes:
  "excludePatterns =
   [ Seq [Lit ''package-lock.json'', Eol],
     Seq [Lit ''yarn.lock'', Eol],
     Seq [Lit ''pnpm-lock.yaml'', Eol],
     Seq [Lit ''composer.lock'', Eol],
     Seq [Lit ''Gemfile.lock'', Eol],
     Seq [Lit ''poetry.lock'', Eol],
     Seq [Lit ''Pipfile.lock'', Eol],
     Seq [Lit ''.min.'', Alt (map Lit [''js'', ''css'']), Eol],
     Seq [Lit ''.bundle.'', Alt (map Lit [''js'', ''css'']), Eol],
     Seq [Lit ''.map'', Eol],
     Seq [Bol, Alt (map Lit [''dist'', ''build'', ''out'', ''target'', ''bin'', ''obj'']), Lit ''/''],
     Seq [Lit ''node_modules/''],
     Seq [Lit ''vendor/''],
     Seq [Lit ''__pycache__/''],
     Seq [Lit ''.pytest_cache/''],
     Seq [Lit ''.generated.''],
     Seq [Lit ''.auto.''],
     Seq [Bol, Lit ''generated/''],
     Seq [Bol, Lit ''docs/_build/''],
     Seq [Bol, Lit ''site/''],
     Seq [Lit ''.vscode/''],
     Seq [Lit ''.idea/''],
     Seq [Lit ''.'', Alt (map Lit [''jpg'', ''jpeg'', ''png'', ''gif'', ''svg'', ''ico'', ''pdf'',
                                   ''zip'', ''tar'', ''gz'', ''rar'', ''7z'', ''exe'', ''dmg'']), Eol],
     Seq [Lit ''.'', Alt (map Lit [''mp4'', ''avi'', ''mov'', ''wmv'', ''mp3'', ''wav'', ''ogg'']), Eol],
     Seq [Lit ''.'', Alt (map Lit [''db'', ''sqlite'', ''sqlite3'']), Eol],
     Seq [Lit ''.'', Alt (map Lit [''log'', ''logs'']), Eol],
     Seq [Bol, Lit ''logs/'']
   ]"
  by (simp add: excludePatterns_def)

text \<open>The classifier includes a path exactly when the path has none of the excluded
  endings and beginnings and contains none of the excluded texts.\<close>

lemma shouldIncludeFile_paths: "shouldIncludeFile p \<longleftrightarrow> \<not> excludedPath p"
proof -
  have alt1: "\<And>l ls. rx_test (Seq [Lit l, Alt (map Lit ls), Eol]) p \<longleftrightarrow> list_ex (\<lambda>x. suffix (l @ x) p) ls"
    by (simp add: rx_test_suffix_alt list_ex_iff)
  have alt2: "\<And>l ls. rx_test (Seq [Bol, Alt (map Lit ls), Lit l]) p \<longleftrightarrow> list_ex (\<lambda>x. prefix (x @ l) p) ls"
    by (simp add: rx_test_prefix_alt list_ex_iff)
  have "list_ex (\<lambda>pattern. rx_test pattern p) excludePatterns \<longleftrightarrow> excludedPath p"
    unfolding excludePatterns_shapes excludedPath_def
      excludedEndings_def excludedBeginnings_def excludedAnywhere_def
    by (simp only: list_ex_Nil_iff list_ex_Cons_iff rx_test_suffix alt1 rx_test_inside
          rx_test_prefix alt2 append.simps simp_thms disj_ac)
  then show ?thesis by (simp add: shouldIncludeFile_def)
qed

text \<open>
  C5. \<open>shouldIncludeFile\<close> returns false exactly when at least one rule of the exclusion
  list matches the path, and includes the path otherwise. The paths
  \<open>package-lock.json\<close>, \<open>dist/x.js\<close>, \<open>node_modules/a/b.js\<close> and \<open>video.mp4\<close> are
  excluded; \<open>src/index.js\<close> and \<open>README.md\<close> are included.
\<close>

theorem shouldIncludeFile_iff_no_rule_matches:
  "(shouldIncludeFile p = False \<longleftrightarrow> (\<exists>rule \<in> set excludePatterns. rx_test rule p))
   \<and> shouldIncludeFile ''package-lock.json'' = False
   \<and> shouldIncludeFile ''dist/x.js'' = False
   \<and> shouldIncludeFile ''node_modules/a/b.js'' = False
   \<and> shouldIncludeFile ''video.mp4'' = False
   \<and> shouldIncludeFile ''src/index.js'' = True
   \<and> shouldIncludeFile ''README.md'' = True"
proof (intro conjI)
  show "shouldIncludeFile p = False \<longleftrightarrow> (\<exists>rule \<in> set excludePatterns. rx_test rule p)"
    by (simp add: shouldIncludeFile_def list_ex_iff)
  show "shouldIncludeFile ''package-lock.json'' = False" by code_simp
  show "shouldIncludeFile ''dist/x.js'' = False" by code_simp
  show "shouldIncludeFile ''node_modules/a/b.js'' = False" by code_simp
  show "shouldIncludeFile ''video.mp4'' = False" by code_simp
  show "shouldIncludeFile ''src/index.js'' = True" by code_simp
  show "shouldIncludeFile ''README.md'' = True" by code_simp
qed

theorem shouldIncludeFile_iff_no_rule_matches_witness:
  "shouldIncludeFile ''docs/_build/index.html'' = False
   \<and> rx_test (Seq [Bol, Lit ''docs/_build/'']) ''docs/_build/index.html''
   \<and> Seq [Bol, Lit ''docs/_build/''] \<in> set excludePatterns"
proof -
  have m: "rx_test (Seq [Bol, Lit ''docs/_build/'']) ''docs/_build/index.html''"
    by code_simp
  have r: "Seq [Bol, Lit ''docs/_build/''] \<in> set excludePatterns"
    by (simp add: excludePatterns_def)
  from m r have "\<exists>rule \<in> set excludePatterns. rx_test rule ''docs/_build/index.html''"
    by blast
  with shouldIncludeFile_iff_no_rule_matches[of "''docs/_build/index.html''"] m r
  show ?thesis by blast
qed

section \<open>The cap of the commit fetcher\<close>






text \<open>One turn of the loop, for evaluation on a given world.\<close>

lemma commits_loop_step:
  "totalFetched < maxCommitsPerRepo \<Longrightarrow>
   getCommitsForRepo_loop w c owner repo commits page totalFetched =
     (case listCommits w (requestCount c + 1) owner repo page of
        Inl e \<Rightarrow> (Inl e, rateLimitCheck w c)
      | Inr data \<Rightarrow>
          if data = [] then (Inr commits, rateLimitCheck w c)
          else getCommitsForRepo_loop w (rateLimitCheck w c) owner repo (commits @ data)
                 (page + 1) (totalFetched + length data))"
  by (subst getCommitsForRepo_loop.simps) (simp add: requestCount_rateLimitCheck Let_def)

lemma fst_getCommitsForRepo:
  "fst (getCommitsForRepo w c owner repo) =
     (case fst (getCommitsForRepo_loop w c owner repo [] 1 0) of Inr commits \<Rightarrow> commits | Inl e \<Rightarrow> [])"
  by (simp add: getCommitsForRepo_def split: prod.splits sum.splits)





section \<open>The cap of 5000 commits\<close>




section \<open>Evaluation on a given world\<close>

lemma stats_loop_step:
  "attempt \<le> maxRetries \<Longrightarrow>
   getCommitStatsWithRetry_from w c owner repo ref maxRetries attempt =
     (case getCommit w (requestCount c + 1) owner repo ref of
        Inr d \<Rightarrow> (Some (statsOfResponse d), rateLimitCheck w c)
      | Inl e \<Rightarrow>
          if status e = Some 409 \<or> status e = Some 404 then (Some zeroStats, rateLimitCheck w c)
          else if attempt = maxRetries then (Some zeroStats, rateLimitCheck w c)
          else getCommitStatsWithRetry_from w (sleep (RetryBackoff (2000 * attempt)) (rateLimitCheck w c))
                 owner repo ref maxRetries (attempt + 1))"
  by (subst getCommitStatsWithRetry_from.simps) (simp add: requestCount_rateLimitCheck Let_def)

lemma repos_loop_step:
  "getAllRepositories_loop w c repos page =
     (case listForAuthenticatedUser w (requestCount c + 1) page of
        Inl e \<Rightarrow> (repos, rateLimitCheck w c)
      | Inr data \<Rightarrow>
          if data = [] then (repos, rateLimitCheck w c)
          else if page + 1 > 1000 then (repos @ data, rateLimitCheck w c)
          else getAllRepositories_loop w (rateLimitCheck w c) (repos @ data) (page + 1))"
  by (subst getAllRepositories_loop.simps) (simp add: requestCount_rateLimitCheck Let_def)

lemma sample_included:
  "shouldIncludeFile ''src/a.js''" "shouldIncludeFile ''src/b.js''" "shouldIncludeFile ''src/c.js''"
  "\<not> shouldIncludeFile ''package-lock.json''"
  by code_simp+

lemma sample_repositories:
  "getAllRepositories sampleWorld c =
     ([sampleRepo ''a'' 10, sampleRepo ''b'' 20, sampleRepo ''c'' 30],
      rateLimitCheck sampleWorld (rateLimitCheck sampleWorld c))"
  unfolding getAllRepositories_def
  by (subst repos_loop_step, simp add: sampleWorld_def, subst repos_loop_step, simp add: sampleWorld_def)

lemma sample_commits:
  "getCommitsForRepo sampleWorld c ''me'' ''a'' =
     ([\<lparr>sha = ''a1''\<rparr>], rateLimitCheck sampleWorld (rateLimitCheck sampleWorld c))"
  "getCommitsForRepo sampleWorld c ''me'' ''b'' =
     ([\<lparr>sha = ''b1''\<rparr>], rateLimitCheck sampleWorld (rateLimitCheck sampleWorld c))"
  "getCommitsForRepo sampleWorld c ''me'' ''c'' =
     ([\<lparr>sha = ''c1''\<rparr>, \<lparr>sha = ''c2''\<rparr>], rateLimitCheck sampleWorld (rateLimitCheck sampleWorld c))"
  by (simp_all add: getCommitsForRepo_def commits_loop_step maxCommitsPerRepo_def sampleWorld_def
        requestCount_rateLimitCheck)

lemma sample_stats:
  "getCommitStatsWithRetry sampleWorld c ''me'' repo ''a1'' 3 =
     (Some \<lparr> cs_additions = 5, cs_deletions = 1, cs_total = 6,
             cs_files = [sourceFile ''src/a.js'' 5 1], cs_truncated = False \<rparr>,
      rateLimitCheck sampleWorld c)"
  "getCommitStatsWithRetry sampleWorld c ''me'' repo ''b1'' 3 =
     (Some \<lparr> cs_additions = 1020, cs_deletions = 3, cs_total = 1023,
             cs_files = [sourceFile ''src/b.js'' 20 3, sourceFile ''package-lock.json'' 1000 0],
             cs_truncated = False \<rparr>,
      rateLimitCheck sampleWorld c)"
  "getCommitStatsWithRetry sampleWorld c ''me'' repo ''c1'' 3 =
     (Some \<lparr> cs_additions = 7, cs_deletions = 0, cs_total = 7,
             cs_files = [sourceFile ''src/c.js'' 7 0], cs_truncated = False \<rparr>,
      rateLimitCheck sampleWorld c)"
  "getCommitStatsWithRetry sampleWorld c ''me'' repo ''c2'' 3 =
     (Some \<lparr> cs_additions = 1, cs_deletions = 0, cs_total = 1,
             cs_files = [None], cs_truncated = False \<rparr>,
      rateLimitCheck sampleWorld c)"
  by (simp_all add: getCommitStatsWithRetry_def stats_loop_step sampleWorld_def commitWith_def
        statsOfResponse_def orZero_def exceedsBound_def)

lemma sample_try_a:
  "processRepository_try sampleWorld c (sampleRepo ''a'' 10) =
     (Inr \<lparr> success = True, error = None,
        stats = \<lparr> sum_additions = 5, sum_deletions = 1, sum_commits = 1, sum_netLines = 4,
                  sum_truncatedCommits = Some 0 \<rparr> \<rparr>,
      rateLimitCheck sampleWorld (rateLimitCheck sampleWorld (rateLimitCheck sampleWorld c)))"
  by (simp add: processRepository_try_def sampleRepo_def sample_commits
        sample_stats filteredStats_def sourceFile_def sample_included orZero_def)

lemma sample_try_b:
  "processRepository_try sampleWorld c (sampleRepo ''b'' 20) =
     (Inr \<lparr> success = True, error = None,
        stats = \<lparr> sum_additions = 20, sum_deletions = 3, sum_commits = 1, sum_netLines = 17,
                  sum_truncatedCommits = Some 0 \<rparr> \<rparr>,
      rateLimitCheck sampleWorld (rateLimitCheck sampleWorld (rateLimitCheck sampleWorld c)))"
  by (simp add: processRepository_try_def sampleRepo_def sample_commits
        sample_stats filteredStats_def sourceFile_def sample_included orZero_def)

lemma sample_try_c:
  "processRepository_try sampleWorld c (sampleRepo ''c'' 30) =
     (Inl nullFileMessage,
      rateLimitCheck sampleWorld (rateLimitCheck sampleWorld
        (rateLimitCheck sampleWorld (rateLimitCheck sampleWorld c))))"
  by (simp add: processRepository_try_def sampleRepo_def sample_commits
        sample_stats filteredStats_def sourceFile_def sample_included orZero_def)

text \<open>The run over the three repositories of the sample world.\<close>

lemma sample_select:
  "selectRepositories sampleWorld c None =
     (Inr (AllMode, [sampleRepo ''a'' 10, sampleRepo ''b'' 20, sampleRepo ''c'' 30]),
      rateLimitCheck sampleWorld (rateLimitCheck sampleWorld c))"
  by (simp add: selectRepositories_def sample_repositories)

lemma sample_run:
  "fst (calculateLOCForYear sampleWorld sampleCalculator None) = Inr sampleResults"
  by (simp add: calculateLOCForYear_def sample_select processRepository_def
        sample_try_a sample_try_b sample_try_c recordResult_def initialResults_def
        requestCount_rateLimitCheck sampleResults_def sampleCalculator_def newCalculator_def
        emptySummary_def)
     (simp add: sampleWorld_def sampleRepo_def)

section \<open>The run over the selected repositories\<close>

lemma processAll_Cons:
  "processAll w c results (repo # rest) =
     processAll w (snd (processRepository w c repo))
       (recordResult repo (fst (processRepository w c repo)) results) rest"
  by (simp add: split_beta)

lemma recordResult_success:
  "success result \<Longrightarrow>
   repoStats (recordResult repo result results) =
     repoStats results @
       [\<lparr> rs_name = full_name repo, rs_additions = sum_additions (stats result),
          rs_deletions = sum_deletions (stats result), rs_netLines = sum_netLines (stats result),
          rs_commits = sum_commits (stats result), rs_sizeKB = repo_size repo,
          rs_truncatedCommits =
            (case sum_truncatedCommits (stats result) of None \<Rightarrow> 0 | Some n \<Rightarrow> n) \<rparr>]
   \<and> successful (processingStatus (recordResult repo result results))
       = successful (processingStatus results) + 1
   \<and> failed (processingStatus (recordResult repo result results)) = failed (processingStatus results)
   \<and> failedRepos (processingStatus (recordResult repo result results))
       = failedRepos (processingStatus results)
   \<and> totalAdditions (recordResult repo result results)
       = totalAdditions results + sum_additions (stats result)
   \<and> totalDeletions (recordResult repo result results)
       = totalDeletions results + sum_deletions (stats result)
   \<and> totalCommits (recordResult repo result results)
       = totalCommits results + sum_commits (stats result)"
  by (simp add: recordResult_def)

lemma recordResult_failure:
  "\<not> success result \<Longrightarrow>
   recordResult repo result results =
     results\<lparr>processingStatus := (processingStatus results)
       \<lparr>failed := failed (processingStatus results) + 1,
        failedRepos := failedRepos (processingStatus results) @ [full_name repo]\<rparr>\<rparr>"
  by (simp add: recordResult_def)

lemma recordResult_frame:
  "fileTypeStats (recordResult repo result results) = fileTypeStats results"
  "warnings (recordResult repo result results) = warnings results"
  "processedAt (recordResult repo result results) = processedAt results"
  "analysisMode (recordResult repo result results) = analysisMode results"
  by (simp_all add: recordResult_def)

lemma processAll_frame:
  "fileTypeStats (fst (processAll w c results repos)) = fileTypeStats results"
  "analysisMode (fst (processAll w c results repos)) = analysisMode results"
  "processedAt (fst (processAll w c results repos)) = processedAt results"
  by (induction repos arbitrary: c results; simp add: split_beta recordResult_frame)+

lemma processAll_partition:
  "map rs_name (repoStats (fst (processAll w c results repos)))
     = map rs_name (repoStats results) @ map full_name (succeeding w c repos)
   \<and> failedRepos (processingStatus (fst (processAll w c results repos)))
     = failedRepos (processingStatus results) @ map full_name (failing w c repos)
   \<and> successful (processingStatus (fst (processAll w c results repos)))
     = successful (processingStatus results) + length (succeeding w c repos)
   \<and> failed (processingStatus (fst (processAll w c results repos)))
     = failed (processingStatus results) + length (failing w c repos)"
proof (induction repos arbitrary: c results)
  case Nil
  show ?case by simp
next
  case (Cons repo rest)
  let ?c = "snd (processRepository w c repo)"
  let ?r = "recordResult repo (fst (processRepository w c repo)) results"
  note ih = Cons.IH[of ?c ?r]
  show ?case
  proof (cases "success (fst (processRepository w c repo))")
    case True
    from recordResult_success[OF True, of repo results] ih show ?thesis
      unfolding processAll_Cons using True by simp
  next
    case False
    from ih show ?thesis
      unfolding processAll_Cons using False by (simp add: recordResult_failure)
  qed
qed

lemma succeeding_failing_partition:
  "mset (succeeding w c repos) + mset (failing w c repos) = mset repos"
  by (induction repos arbitrary: c) simp_all

lemma succeeding_failing_length:
  "length (succeeding w c repos) + length (failing w c repos) = length repos"
  by (induction repos arbitrary: c) simp_all

lemma succeeding_subset: "set (succeeding w c repos) \<subseteq> set repos"
  by (induction repos arbitrary: c) auto

lemma failing_subset: "set (failing w c repos) \<subseteq> set repos"
  by (induction repos arbitrary: c) auto

lemma succeeding_failing_disjoint:
  "distinct (map full_name repos) \<Longrightarrow>
   set (map full_name (succeeding w c repos)) \<inter> set (map full_name (failing w c repos)) = {}"
proof (induction repos arbitrary: c)
  case Nil
  show ?case by simp
next
  case (Cons repo rest)
  let ?c = "snd (processRepository w c repo)"
  from Cons.prems have new: "full_name repo \<notin> full_name ` set rest"
    and d: "distinct (map full_name rest)"
    by simp_all
  have "full_name repo \<notin> full_name ` set (succeeding w ?c rest)"
       "full_name repo \<notin> full_name ` set (failing w ?c rest)"
    using new succeeding_subset[of w ?c rest] failing_subset[of w ?c rest] by blast+
  with Cons.IH[OF d, of ?c] show ?case by simp
qed

lemma calculateLOCForYear_result:
  "calculateLOCForYear w c targetRepo = (Inr results, c') \<Longrightarrow>
   \<exists>m repos c1. selectRepositories w c targetRepo = (Inr (m, repos), c1)
     \<and> results = (fst (processAll w c1 (initialResults w m) repos))
          \<lparr>netLines := totalAdditions (fst (processAll w c1 (initialResults w m) repos))
                        - totalDeletions (fst (processAll w c1 (initialResults w m) repos)),
           runtimeStats := (runtimeStats (fst (processAll w c1 (initialResults w m) repos)))
              \<lparr>totalApiCalls := requestCount c'\<rparr>\<rparr>
     \<and> c' = snd (processAll w c1 (initialResults w m) repos)"
proof -
  assume run: "calculateLOCForYear w c targetRepo = (Inr results, c')"
  obtain sel c1 where s: "selectRepositories w c targetRepo = (sel, c1)"
    by (cases "selectRepositories w c targetRepo") auto
  from run have v: "validYear w (year c)"
    by (auto simp: calculateLOCForYear_def split: if_splits)
  show ?thesis
  proof (cases sel)
    case (Inl msg)
    with run s v show ?thesis by (simp add: calculateLOCForYear_def)
  next
    case (Inr mr)
    obtain m repos where mr: "mr = (m, repos)" by (cases mr) auto
    from run s v Inr mr show ?thesis
      by (simp add: calculateLOCForYear_def Let_def split_beta) blast
  qed
qed

section \<open>Invariants of the result of a run\<close>

text \<open>
  C4. When a run returns its result, the net lines are the total additions minus the total
  deletions. The selected repositories fall into those whose processing succeeded and those
  whose processing failed, each entry of the selection in exactly one of the two; the
  names in \<open>repoStats\<close> are the names of the former and \<open>failedRepos\<close> the names of the
  latter, in the order of the selection, and the two counters are the lengths of the two
  lists, so that they add up to the number of repositories selected. When the selected
  repositories have different names, no name is in both lists.
\<close>

theorem calculateLOCForYear_invariants:
  "calculateLOCForYear w c targetRepo = (Inr results, c') \<longrightarrow>
   (\<exists>m repos c1. selectRepositories w c targetRepo = (Inr (m, repos), c1)
      \<and> netLines results = totalAdditions results - totalDeletions results
      \<and> successful (processingStatus results) + failed (processingStatus results) = length repos
      \<and> map rs_name (repoStats results) = map full_name (succeeding w c1 repos)
      \<and> failedRepos (processingStatus results) = map full_name (failing w c1 repos)
      \<and> successful (processingStatus results) = length (repoStats results)
      \<and> failed (processingStatus results) = length (failedRepos (processingStatus results))
      \<and> mset (succeeding w c1 repos) + mset (failing w c1 repos) = mset repos
      \<and> mset (map rs_name (repoStats results)) + mset (failedRepos (processingStatus results))
           = mset (map full_name repos)
      \<and> (distinct (map full_name repos) \<longrightarrow>
            set (map rs_name (repoStats results)) \<inter> set (failedRepos (processingStatus results)) = {}
            \<and> set (map rs_name (repoStats results)) \<union> set (failedRepos (processingStatus results))
                = set (map full_name repos)))"
proof
  assume run: "calculateLOCForYear w c targetRepo = (Inr results, c')"
  from calculateLOCForYear_result[OF run] obtain m repos c1 where
    sel: "selectRepositories w c targetRepo = (Inr (m, repos), c1)" and
    res: "results = (fst (processAll w c1 (initialResults w m) repos))
          \<lparr>netLines := totalAdditions (fst (processAll w c1 (initialResults w m) repos))
                        - totalDeletions (fst (processAll w c1 (initialResults w m) repos)),
           runtimeStats := (runtimeStats (fst (processAll w c1 (initialResults w m) repos)))
              \<lparr>totalApiCalls := requestCount c'\<rparr>\<rparr>"
    by blast
  let ?r = "fst (processAll w c1 (initialResults w m) repos)"
  from processAll_partition[of w c1 "initialResults w m" repos]
  have names: "map rs_name (repoStats ?r) = map full_name (succeeding w c1 repos)"
    and fnames: "failedRepos (processingStatus ?r) = map full_name (failing w c1 repos)"
    and ns: "successful (processingStatus ?r) = length (succeeding w c1 repos)"
    and nf: "failed (processingStatus ?r) = length (failing w c1 repos)"
    by (simp_all add: initialResults_def)
  have names': "map rs_name (repoStats results) = map full_name (succeeding w c1 repos)"
    and fnames': "failedRepos (processingStatus results) = map full_name (failing w c1 repos)"
    and ns': "successful (processingStatus results) = length (succeeding w c1 repos)"
    and nf': "failed (processingStatus results) = length (failing w c1 repos)"
    and net: "netLines results = totalAdditions results - totalDeletions results"
    using names fnames ns nf by (simp_all add: res)
  have part: "mset (succeeding w c1 repos) + mset (failing w c1 repos) = mset repos"
    by (rule succeeding_failing_partition)
  have mnames: "mset (map rs_name (repoStats results)) + mset (failedRepos (processingStatus results))
           = mset (map full_name repos)"
    unfolding names' fnames' using arg_cong[OF part, of "image_mset full_name"] by simp
  have len: "length (repoStats results) = length (succeeding w c1 repos)"
    using arg_cong[OF names', of length] by simp
  have dis: "set (map rs_name (repoStats results)) \<inter> set (failedRepos (processingStatus results)) = {}
            \<and> set (map rs_name (repoStats results)) \<union> set (failedRepos (processingStatus results))
                = set (map full_name repos)" if d: "distinct (map full_name repos)"
  proof
    show "set (map rs_name (repoStats results)) \<inter> set (failedRepos (processingStatus results)) = {}"
      unfolding names' fnames' by (rule succeeding_failing_disjoint[OF d])
    show "set (map rs_name (repoStats results)) \<union> set (failedRepos (processingStatus results))
                = set (map full_name repos)"
      using arg_cong[OF mnames, of set_mset] by simp
  qed
  show "\<exists>m repos c1. selectRepositories w c targetRepo = (Inr (m, repos), c1)
      \<and> netLines results = totalAdditions results - totalDeletions results
      \<and> successful (processingStatus results) + failed (processingStatus results) = length repos
      \<and> map rs_name (repoStats results) = map full_name (succeeding w c1 repos)
      \<and> failedRepos (processingStatus results) = map full_name (failing w c1 repos)
      \<and> successful (processingStatus results) = length (repoStats results)
      \<and> failed (processingStatus results) = length (failedRepos (processingStatus results))
      \<and> mset (succeeding w c1 repos) + mset (failing w c1 repos) = mset repos
      \<and> mset (map rs_name (repoStats results)) + mset (failedRepos (processingStatus results))
           = mset (map full_name repos)
      \<and> (distinct (map full_name repos) \<longrightarrow>
            set (map rs_name (repoStats results)) \<inter> set (failedRepos (processingStatus results)) = {}
            \<and> set (map rs_name (repoStats results)) \<union> set (failedRepos (processingStatus results))
                = set (map full_name repos))"
    apply (rule exI[of _ m], rule exI[of _ repos], rule exI[of _ c1])
    using sel net ns' nf' names' fnames' part mnames len dis succeeding_failing_length[of w c1 repos]
    by simp
qed

text \<open>The run over the sample world: two repositories succeed, one fails.\<close>

theorem calculateLOCForYear_invariants_witness:
  "fst (calculateLOCForYear sampleWorld sampleCalculator None) = Inr sampleResults
   \<and> netLines sampleResults = totalAdditions sampleResults - totalDeletions sampleResults
   \<and> successful (processingStatus sampleResults) + failed (processingStatus sampleResults) = 3
   \<and> map rs_name (repoStats sampleResults) = [''me/a'', ''me/b'']
   \<and> failedRepos (processingStatus sampleResults) = [''me/c'']
   \<and> set (map rs_name (repoStats sampleResults))
         \<inter> set (failedRepos (processingStatus sampleResults)) = {}"
proof -
  let ?repos = "[sampleRepo ''a'' 10, sampleRepo ''b'' 20, sampleRepo ''c'' 30]"
  obtain c' where run: "calculateLOCForYear sampleWorld sampleCalculator None = (Inr sampleResults, c')"
    using sample_run by (cases "calculateLOCForYear sampleWorld sampleCalculator None") auto
  from calculateLOCForYear_invariants[of sampleWorld sampleCalculator None sampleResults c'] run
  obtain m repos c1 where
    sel: "selectRepositories sampleWorld sampleCalculator None = (Inr (m, repos), c1)" and
    net: "netLines sampleResults = totalAdditions sampleResults - totalDeletions sampleResults" and
    cnt: "successful (processingStatus sampleResults) + failed (processingStatus sampleResults)
            = length repos" and
    dis: "distinct (map full_name repos) \<longrightarrow>
            set (map rs_name (repoStats sampleResults))
              \<inter> set (failedRepos (processingStatus sampleResults)) = {}
            \<and> set (map rs_name (repoStats sampleResults))
              \<union> set (failedRepos (processingStatus sampleResults)) = set (map full_name repos)"
    by blast
  from sel have repos: "repos = ?repos" by (simp add: sample_select)
  have "distinct (map full_name ?repos)" by (simp add: sampleRepo_def)
  with dis repos have "set (map rs_name (repoStats sampleResults))
         \<inter> set (failedRepos (processingStatus sampleResults)) = {}"
    by blast
  moreover from cnt repos
  have "successful (processingStatus sampleResults) + failed (processingStatus sampleResults) = 3"
    by simp
  moreover have "map rs_name (repoStats sampleResults) = [''me/a'', ''me/b'']"
    "failedRepos (processingStatus sampleResults) = [''me/c'']"
    by (simp_all add: sampleResults_def)
  ultimately show ?thesis using net sample_run by simp
qed

section \<open>A repository whose processing throws\<close>

text \<open>The exceptions that can leave the \<open>try\<close> block: a repository without owner, and a
  null entry in a commit's file array.\<close>

lemma sumIncludedFiles_error: "sumIncludedFiles files a d = Inl msg \<Longrightarrow> msg = nullFileMessage"
  by (induction files a d rule: sumIncludedFiles.induct) (auto split: if_splits)

lemma getCommitStatsWithRetry_Some:
  "fst (getCommitStatsWithRetry w c owner repo ref 3) \<noteq> None"
  using getCommitStatsWithRetry_refines[of w c owner repo ref] by auto

lemma processCommits_error:
  "processCommits w c owner repo commits acc = (Inl msg, c') \<Longrightarrow> msg = nullFileMessage"
proof (induction commits arbitrary: c acc)
  case Nil
  then show ?case by simp
next
  case (Cons commit rest)
  obtain s c1 where st: "getCommitStatsWithRetry w c owner repo (sha commit) 3 = (Some s, c1)"
    using getCommitStatsWithRetry_Some[of w c owner repo "sha commit"]
    by (cases "getCommitStatsWithRetry w c owner repo (sha commit) 3") auto
  show ?case
  proof (cases "filteredStats s")
    case (Inl m)
    then have "m = nullFileMessage"
      by (auto simp: filteredStats_def split: if_splits dest: sumIncludedFiles_error)
    with Cons.prems st Inl show ?thesis by (simp add: Let_def)
  next
    case (Inr p)
    with Cons.prems st show ?thesis
      by (auto simp: Let_def split_beta dest: Cons.IH)
  qed
qed

lemma processCommits_error_fst:
  "fst (processCommits w c owner repo commits acc) = Inl msg \<Longrightarrow> msg = nullFileMessage"
  using processCommits_error[of w c owner repo commits acc msg]
  by (cases "processCommits w c owner repo commits acc") auto

lemma processRepository_try_error:
  "processRepository_try w c repo = (Inl msg, c') \<Longrightarrow>
   (owner_login repo = None \<and> msg = nullOwnerMessage \<and> c' = c) \<or> msg = nullFileMessage"
  by (auto simp: processRepository_try_def split_beta Let_def
           split: option.splits if_splits prod.splits sum.splits dest: processCommits_error_fst)

text \<open>
  C6. When the processing of a repository raises an exception, \<open>processRepository\<close> returns
  a failure that carries the exception's message, with zero statistics. The run then adds
  one to the failed counter and appends the repository's full name to \<open>failedRepos\<close>, and
  changes nothing else in the result: the totals of additions, deletions and commits, the
  list of repository statistics and the successful counter stay as they were. The loop goes
  on with the next repository from the state the failed one left.
\<close>

theorem processRepository_failure_discarded:
  "processRepository_try w c repo = (Inl msg, c') \<longrightarrow>
   processRepository w c repo
     = (\<lparr> success = False, error = Some msg, stats = emptySummary \<rparr>, c')
   \<and> recordResult repo (fst (processRepository w c repo)) results
       = results\<lparr>processingStatus := (processingStatus results)
           \<lparr>failed := failed (processingStatus results) + 1,
            failedRepos := failedRepos (processingStatus results) @ [full_name repo]\<rparr>\<rparr>
   \<and> totalAdditions (recordResult repo (fst (processRepository w c repo)) results)
       = totalAdditions results
   \<and> totalDeletions (recordResult repo (fst (processRepository w c repo)) results)
       = totalDeletions results
   \<and> totalCommits (recordResult repo (fst (processRepository w c repo)) results)
       = totalCommits results
   \<and> repoStats (recordResult repo (fst (processRepository w c repo)) results) = repoStats results
   \<and> successful (processingStatus (recordResult repo (fst (processRepository w c repo)) results))
       = successful (processingStatus results)
   \<and> processAll w c results (repo # rest)
       = processAll w c'
           (results\<lparr>processingStatus := (processingStatus results)
              \<lparr>failed := failed (processingStatus results) + 1,
               failedRepos := failedRepos (processingStatus results) @ [full_name repo]\<rparr>\<rparr>) rest"
proof
  assume t: "processRepository_try w c repo = (Inl msg, c')"
  then have p: "processRepository w c repo
     = (\<lparr> success = False, error = Some msg, stats = emptySummary \<rparr>, c')"
    by (simp add: processRepository_def)
  have r: "recordResult repo (fst (processRepository w c repo)) results
       = results\<lparr>processingStatus := (processingStatus results)
           \<lparr>failed := failed (processingStatus results) + 1,
            failedRepos := failedRepos (processingStatus results) @ [full_name repo]\<rparr>\<rparr>"
    unfolding p by (simp add: recordResult_failure)
  have a: "processAll w c results (repo # rest)
       = processAll w c'
           (results\<lparr>processingStatus := (processingStatus results)
              \<lparr>failed := failed (processingStatus results) + 1,
               failedRepos := failedRepos (processingStatus results) @ [full_name repo]\<rparr>\<rparr>) rest"
    unfolding processAll_Cons r unfolding p by simp
  show "processRepository w c repo
     = (\<lparr> success = False, error = Some msg, stats = emptySummary \<rparr>, c')
   \<and> recordResult repo (fst (processRepository w c repo)) results
       = results\<lparr>processingStatus := (processingStatus results)
           \<lparr>failed := failed (processingStatus results) + 1,
            failedRepos := failedRepos (processingStatus results) @ [full_name repo]\<rparr>\<rparr>
   \<and> totalAdditions (recordResult repo (fst (processRepository w c repo)) results)
       = totalAdditions results
   \<and> totalDeletions (recordResult repo (fst (processRepository w c repo)) results)
       = totalDeletions results
   \<and> totalCommits (recordResult repo (fst (processRepository w c repo)) results)
       = totalCommits results
   \<and> repoStats (recordResult repo (fst (processRepository w c repo)) results) = repoStats results
   \<and> successful (processingStatus (recordResult repo (fst (processRepository w c repo)) results))
       = successful (processingStatus results)
   \<and> processAll w c results (repo # rest)
       = processAll w c'
           (results\<lparr>processingStatus := (processingStatus results)
              \<lparr>failed := failed (processingStatus results) + 1,
               failedRepos := failedRepos (processingStatus results) @ [full_name repo]\<rparr>\<rparr>) rest"
    using p a unfolding r by simp
qed

lemma sample_full_name: "full_name (sampleRepo nm kb) = ''me/'' @ nm"
  by (simp add: sampleRepo_def)

text \<open>Repository \<open>me/c\<close> of the sample world: its first commit adds 7 lines, its second
  throws. The 7 lines reach no total.\<close>

theorem processRepository_failure_discarded_witness:
  "fst (processRepository_try sampleWorld sampleCalculator (sampleRepo ''c'' 30)) = Inl nullFileMessage
   \<and> fst (processRepository sampleWorld sampleCalculator (sampleRepo ''c'' 30))
       = \<lparr> success = False, error = Some nullFileMessage, stats = emptySummary \<rparr>
   \<and> totalAdditions (recordResult (sampleRepo ''c'' 30)
        (fst (processRepository sampleWorld sampleCalculator (sampleRepo ''c'' 30)))
        (initialResults sampleWorld AllMode)) = 0
   \<and> failedRepos (processingStatus (recordResult (sampleRepo ''c'' 30)
        (fst (processRepository sampleWorld sampleCalculator (sampleRepo ''c'' 30)))
        (initialResults sampleWorld AllMode))) = [''me/c'']
   \<and> failed (processingStatus (recordResult (sampleRepo ''c'' 30)
        (fst (processRepository sampleWorld sampleCalculator (sampleRepo ''c'' 30)))
        (initialResults sampleWorld AllMode))) = 1"
  using processRepository_failure_discarded
    [of sampleWorld sampleCalculator "sampleRepo ''c'' 30" nullFileMessage
        "rateLimitCheck sampleWorld (rateLimitCheck sampleWorld
           (rateLimitCheck sampleWorld (rateLimitCheck sampleWorld sampleCalculator)))"
        "initialResults sampleWorld AllMode" "[]"]
  by (simp add: sample_try_c initialResults_def sample_full_name recordResult_def)

section \<open>The reports\<close>

lemma sortByAdditions_descending: "descendingAdditions (sortByAdditions xs)"
proof -
  have "sorted (map (\<lambda>repo. - rs_additions repo) (sortByAdditions xs))"
    unfolding sortByAdditions_def by (rule sorted_sort_key)
  then show ?thesis
    unfolding descendingAdditions_def sorted_map by (simp add: sorted_wrt_iff_nth_less)
qed

lemma sortByAdditions_mset: "mset (sortByAdditions xs) = mset xs"
  by (simp add: sortByAdditions_def)

lemma sortByAdditions_stable:
  "filter (\<lambda>repo. rs_additions repo = k) (sortByAdditions xs)
     = filter (\<lambda>repo. rs_additions repo = k) xs"
  using sort_key_stable[of "\<lambda>repo. - rs_additions repo" "- k" xs]
  by (simp add: sortByAdditions_def)

lemma generateTextSummary_results:
  "snd (generateTextSummary w c results)
     = results\<lparr>repoStats := sortByAdditions (repoStats results)\<rparr>"
  by (simp add: generateTextSummary_def Let_def)

lemma generateTextSummary_text:
  "fst (generateTextSummary w c results)
     = summaryHead w c results @ ''TOP 10 REPOSITORIES BY LINES ADDED:'' @ newline
       @ concat (map (topRepoLine w) (enumerate 0 (take 10 (sortByAdditions (repoStats results)))))
       @ fileTypesHeading
       @ concat (map (topFileTypeLine w) (enumerate 0 (topFileTypes results)))"
  by (simp add: generateTextSummary_def Let_def topFileTypes_def)

lemma main_finished:
  "main w token user yr arg = Finished saved final \<Longrightarrow>
   \<exists>tok usr results calc'.
     token = Some tok \<and> user = Some usr \<and>
     calculateLOCForYear w (newCalculator w usr yr)
        (case arg of None \<Rightarrow> None | Some a \<Rightarrow> if a = [] then None else Some a)
       = (Inr results, calc') \<and>
     detailsDocument saved = printSummary results \<and>
     summaryDocument saved = fst (generateTextSummary w calc' (printSummary results)) \<and>
     final = snd (generateTextSummary w calc' (printSummary results))"
proof -
  assume m: "main w token user yr arg = Finished saved final"
  then obtain tok usr where tu: "token = Some tok" "user = Some usr" "tok \<noteq> []" "usr \<noteq> []"
    by (auto simp: main_def split: option.splits if_splits)
  let ?t = "case arg of None \<Rightarrow> None | Some a \<Rightarrow> if a = [] then None else Some a"
  obtain r calc' where run: "calculateLOCForYear w (newCalculator w usr yr) ?t = (r, calc')"
    by (cases "calculateLOCForYear w (newCalculator w usr yr) ?t") auto
  show ?thesis
  proof (cases r)
    case (Inl msg)
    with m tu run show ?thesis by (simp add: main_def Let_def)
  next
    case (Inr results)
    with m tu run show ?thesis
      by (auto simp: main_def Let_def saveResults_def split_beta)
  qed
qed

text \<open>
  C9. The \<open>fileTypeStats\<close> mapping is created empty, and nothing that a run does to the
  result object adds to it: not the recording of a repository's result, not the loop over
  the repositories, not \<open>printSummary\<close>, not \<open>generateTextSummary\<close>. So the result that
  \<open>calculateLOCForYear\<close> returns has no file types; and when \<open>main\<close> completes, the JSON
  document has none, the ranking of file types has no entry, and the text summary ends with
  the heading of that ranking.
\<close>

theorem fileTypeStats_never_populated:
  "fileTypeStats (initialResults w m) = []
   \<and> fileTypeStats (recordResult repo result results) = fileTypeStats results
   \<and> fileTypeStats (fst (processAll w c results repos)) = fileTypeStats results
   \<and> fileTypeStats (printSummary results) = fileTypeStats results
   \<and> fileTypeStats (snd (generateTextSummary w c results)) = fileTypeStats results
   \<and> (\<forall>run c'. calculateLOCForYear w c targetRepo = (Inr run, c') \<longrightarrow> fileTypeStats run = [])
   \<and> (\<forall>saved final. main w token user yr arg = Finished saved final \<longrightarrow>
         fileTypeStats (detailsDocument saved) = []
         \<and> fileTypeStats final = []
         \<and> topFileTypes (detailsDocument saved) = []
         \<and> suffix fileTypesHeading (summaryDocument saved))"
proof (intro conjI allI impI)
  show "fileTypeStats (initialResults w m) = []" by (simp add: initialResults_def)
  show "fileTypeStats (recordResult repo result results) = fileTypeStats results"
    by (rule recordResult_frame)
  show "fileTypeStats (fst (processAll w c results repos)) = fileTypeStats results"
    by (rule processAll_frame)
  show "fileTypeStats (printSummary results) = fileTypeStats results"
    by (simp add: printSummary_def)
  show "fileTypeStats (snd (generateTextSummary w c results)) = fileTypeStats results"
    by (simp add: generateTextSummary_results)
next
  fix run c'
  assume "calculateLOCForYear w c targetRepo = (Inr run, c')"
  from calculateLOCForYear_result[OF this] show "fileTypeStats run = []"
    by (auto simp: processAll_frame initialResults_def)
next
  fix saved final
  assume "main w token user yr arg = Finished saved final"
  from main_finished[OF this] obtain usr results calc' where
    run: "calculateLOCForYear w (newCalculator w usr yr)
        (case arg of None \<Rightarrow> None | Some a \<Rightarrow> if a = [] then None else Some a)
       = (Inr results, calc')" and
    d: "detailsDocument saved = printSummary results" and
    s: "summaryDocument saved = fst (generateTextSummary w calc' (printSummary results))" and
    f: "final = snd (generateTextSummary w calc' (printSummary results))"
    by blast
  from calculateLOCForYear_result[OF run] have e: "fileTypeStats results = []"
    by (auto simp: processAll_frame initialResults_def)
  show "fileTypeStats (detailsDocument saved) = []" by (simp add: d e printSummary_def)
  show "fileTypeStats final = []" by (simp add: f e generateTextSummary_results printSummary_def)
  show t: "topFileTypes (detailsDocument saved) = []"
    by (simp add: d e printSummary_def topFileTypes_def sortEntriesByAdditions_def)
  have "topFileTypes (printSummary results) = []" using t d by simp
  then show "suffix fileTypesHeading (summaryDocument saved)"
    unfolding s generateTextSummary_text by (simp add: suffix_def)
qed

text \<open>The complete program on the sample world.\<close>

lemma sample_main:
  "main sampleWorld (Some ''token'') (Some ''me'') 2025 None =
     Finished
       \<lparr> detailsDocument = printSummary sampleResults,
         summaryDocument =
           fst (generateTextSummary sampleWorld
                  (snd (calculateLOCForYear sampleWorld sampleCalculator None))
                  (printSummary sampleResults)) \<rparr>
       (snd (generateTextSummary sampleWorld
               (snd (calculateLOCForYear sampleWorld sampleCalculator None))
               (printSummary sampleResults)))"
proof -
  obtain c' where run: "calculateLOCForYear sampleWorld sampleCalculator None = (Inr sampleResults, c')"
    using sample_run by (cases "calculateLOCForYear sampleWorld sampleCalculator None") auto
  have "calculateLOCForYear sampleWorld (newCalculator sampleWorld ''me'' 2025) None
          = (Inr sampleResults, c')"
    using run by (simp add: sampleCalculator_def)
  then show ?thesis
    unfolding run by (simp add: main_def Let_def saveResults_def split_beta)
qed

theorem fileTypeStats_never_populated_witness:
  "fileTypeStats (detailsDocument (the (savedOf
       (main sampleWorld (Some ''token'') (Some ''me'') 2025 None)))) = []
   \<and> topFileTypes (detailsDocument (the (savedOf
       (main sampleWorld (Some ''token'') (Some ''me'') 2025 None)))) = []
   \<and> suffix fileTypesHeading (summaryDocument (the (savedOf
       (main sampleWorld (Some ''token'') (Some ''me'') 2025 None))))"
proof -
  let ?saved = "\<lparr> detailsDocument = printSummary sampleResults,
         summaryDocument =
           fst (generateTextSummary sampleWorld
                  (snd (calculateLOCForYear sampleWorld sampleCalculator None))
                  (printSummary sampleResults)) \<rparr>"
  let ?final = "snd (generateTextSummary sampleWorld
               (snd (calculateLOCForYear sampleWorld sampleCalculator None))
               (printSummary sampleResults))"
  from fileTypeStats_never_populated
         [of sampleWorld AllMode "sampleRepo ''a'' 10"
             "\<lparr> success = True, error = None, stats = emptySummary \<rparr>"
             sampleResults sampleCalculator "[]"
             None "Some ''token''" "Some ''me''" 2025 None]
  have "\<forall>saved final. main sampleWorld (Some ''token'') (Some ''me'') 2025 None = Finished saved final \<longrightarrow>
         fileTypeStats (detailsDocument saved) = []
         \<and> fileTypeStats final = []
         \<and> topFileTypes (detailsDocument saved) = []
         \<and> suffix fileTypesHeading (summaryDocument saved)"
    by blast
  with sample_main have
    "fileTypeStats (detailsDocument ?saved) = []
     \<and> topFileTypes (detailsDocument ?saved) = []
     \<and> suffix fileTypesHeading (summaryDocument ?saved)"
    by blast
  then show ?thesis by (simp only: sample_main savedOf.simps option.sel)
qed

text \<open>
  C10. \<open>printSummary\<close> and \<open>generateTextSummary\<close> both leave the \<open>repoStats\<close> array of the
  result object they are given sorted: it holds the same entries in descending order of
  \<open>additions\<close>, entries with equal additions in their former order. \<open>main\<close> calls
  \<open>printSummary\<close> before \<open>saveResults\<close>, so the \<open>repoStats\<close> of the JSON document it
  writes is the sorted list, not the list in the order of processing that
  \<open>calculateLOCForYear\<close> returned.
\<close>

theorem summaries_sort_repoStats_in_place:
  "repoStats (printSummary results) = sortByAdditions (repoStats results)
   \<and> repoStats (snd (generateTextSummary w c results)) = sortByAdditions (repoStats results)
   \<and> descendingAdditions (sortByAdditions xs)
   \<and> mset (sortByAdditions xs) = mset xs
   \<and> (\<forall>k. filter (\<lambda>repo. rs_additions repo = k) (sortByAdditions xs)
             = filter (\<lambda>repo. rs_additions repo = k) xs)
   \<and> (\<forall>saved final. main w token user yr arg = Finished saved final \<longrightarrow>
         (\<exists>usr run calc'.
             user = Some usr
             \<and> calculateLOCForYear w (newCalculator w usr yr)
                  (case arg of None \<Rightarrow> None | Some a \<Rightarrow> if a = [] then None else Some a)
                 = (Inr run, calc')
             \<and> repoStats (detailsDocument saved) = sortByAdditions (repoStats run))
         \<and> descendingAdditions (repoStats (detailsDocument saved)))"
proof (intro conjI allI impI)
  show "repoStats (printSummary results) = sortByAdditions (repoStats results)"
    by (simp add: printSummary_def)
  show "repoStats (snd (generateTextSummary w c results)) = sortByAdditions (repoStats results)"
    by (simp add: generateTextSummary_results)
  show "descendingAdditions (sortByAdditions xs)" by (rule sortByAdditions_descending)
  show "mset (sortByAdditions xs) = mset xs" by (rule sortByAdditions_mset)
  show "filter (\<lambda>repo. rs_additions repo = k) (sortByAdditions xs)
             = filter (\<lambda>repo. rs_additions repo = k) xs" for k
    by (rule sortByAdditions_stable)
next
  fix saved final
  assume "main w token user yr arg = Finished saved final"
  from main_finished[OF this] obtain usr run calc' where
    u: "user = Some usr" and
    run: "calculateLOCForYear w (newCalculator w usr yr)
        (case arg of None \<Rightarrow> None | Some a \<Rightarrow> if a = [] then None else Some a)
       = (Inr run, calc')" and
    d: "detailsDocument saved = printSummary run"
    by blast
  have r: "repoStats (detailsDocument saved) = sortByAdditions (repoStats run)"
    by (simp add: d printSummary_def)
  with u run show "\<exists>usr run calc'.
             user = Some usr
             \<and> calculateLOCForYear w (newCalculator w usr yr)
                  (case arg of None \<Rightarrow> None | Some a \<Rightarrow> if a = [] then None else Some a)
                 = (Inr run, calc')
             \<and> repoStats (detailsDocument saved) = sortByAdditions (repoStats run)"
    by blast
  show "descendingAdditions (repoStats (detailsDocument saved))"
    unfolding r by (rule sortByAdditions_descending)
qed

text \<open>On the sample world the repositories are processed in the order \<open>me/a\<close>, \<open>me/b\<close>, and
  the JSON document lists \<open>me/b\<close> (20 additions) before \<open>me/a\<close> (5 additions).\<close>

theorem summaries_sort_repoStats_in_place_witness:
  "map rs_name (repoStats sampleResults) = [''me/a'', ''me/b'']
   \<and> fst (calculateLOCForYear sampleWorld sampleCalculator None) = Inr sampleResults
   \<and> map rs_name (repoStats (detailsDocument (the (savedOf
        (main sampleWorld (Some ''token'') (Some ''me'') 2025 None))))) = [''me/b'', ''me/a'']
   \<and> descendingAdditions (repoStats (detailsDocument (the (savedOf
        (main sampleWorld (Some ''token'') (Some ''me'') 2025 None)))))"
proof -
  let ?saved = "\<lparr> detailsDocument = printSummary sampleResults,
         summaryDocument =
           fst (generateTextSummary sampleWorld
                  (snd (calculateLOCForYear sampleWorld sampleCalculator None))
                  (printSummary sampleResults)) \<rparr>"
  from summaries_sort_repoStats_in_place
         [of sampleResults sampleWorld sampleCalculator "[]"
             "Some ''token''" "Some ''me''" 2025 None]
  have "\<forall>saved final. main sampleWorld (Some ''token'') (Some ''me'') 2025 None = Finished saved final \<longrightarrow>
          descendingAdditions (repoStats (detailsDocument saved))"
    and p: "repoStats (printSummary sampleResults) = sortByAdditions (repoStats sampleResults)"
    by blast+
  with sample_main have "descendingAdditions (repoStats (detailsDocument ?saved))"
    by blast
  moreover have "map rs_name (sortByAdditions (repoStats sampleResults)) = [''me/b'', ''me/a'']"
    by (simp add: sampleResults_def sortByAdditions_def)
  ultimately show ?thesis
    using p sample_run by (simp add: sample_main) (simp add: sampleResults_def)
qed

section \<open>The throttle\<close>

lemma elapsedHours_zero: "elapsedHours c now = 0 \<longleftrightarrow> now = startTime c"
  by (simp add: elapsedHours_def)









end
